theory Spec2Isabelle
  imports Complex_Main "HOL-Library.Word" "HOL-Library.Log_Nat"
begin

section \<open>Floating-point values\<close>

text \<open>
  The sensor code of \<^verbatim>\<open>systems/sensors/rgbd_sensor.cc\<close> computes with \<^verbatim>\<open>float\<close> and
  \<^verbatim>\<open>double\<close>. A value of either type is a finite real number, an infinity or a NaN, and
  an operation that rounds is modelled with its rounding (IEEE 754, round to nearest, ties
  to even). The sign of a zero is not modelled: no operation of the sensor depends on it.
\<close>

datatype fp = Fin real | PInf | NInf | NaN

text \<open>The exponent of a positive real: \<open>2 ^ ilog2 x \<le> x < 2 ^ (ilog2 x + 1)\<close>.\<close>

definition ilog2 :: "real \<Rightarrow> int" where
  "ilog2 x = (if 1 \<le> x then bitlen \<lfloor>x\<rfloor> - 1 else - bitlen (\<lceil>1 / x\<rceil> - 1))"

definition pow2 :: "int \<Rightarrow> real" where
  "pow2 k = (if 0 \<le> k then 2 ^ nat k else 1 / 2 ^ nat (- k))"

definition round_ties_even :: "real \<Rightarrow> int" where
  "round_ties_even x =
     (let f = \<lfloor>x\<rfloor>; d = x - of_int f
      in if d < 1 / 2 then f else if 1 / 2 < d then f + 1
         else if even f then f else f + 1)"

text \<open>
  IEEE 754 round-to-nearest, ties-to-even, into the binary format with \<open>p\<close> significant
  bits and exponents from \<open>emin\<close> to \<open>emax\<close> (subnormals share the exponent \<open>emin\<close>; a
  result of magnitude \<open>2 ^ (emax + 1)\<close> or more is an infinity).
\<close>

definition binary_round :: "nat \<Rightarrow> int \<Rightarrow> int \<Rightarrow> real \<Rightarrow> fp" where
  "binary_round p emin emax x =
     (if x = 0 then Fin 0
      else let e = max (ilog2 \<bar>x\<bar>) emin;
               u = pow2 (e - int p + 1);
               y = of_int (round_ties_even (x / u)) * u
           in if pow2 (emax + 1) \<le> \<bar>y\<bar> then (if 0 < x then PInf else NInf) else Fin y)"

definition binary32 :: "real \<Rightarrow> fp" where
  "binary32 = binary_round 24 (- 126) 127"

definition binary64 :: "real \<Rightarrow> fp" where
  "binary64 = binary_round 53 (- 1022) 1023"

text \<open>The conversion of a \<^verbatim>\<open>double\<close> to a \<^verbatim>\<open>float\<close> (initialising a \<^verbatim>\<open>const float\<close>).\<close>

fun float_of_double :: "fp \<Rightarrow> fp" where
  "float_of_double (Fin x) = binary32 x"
| "float_of_double v = v"

text \<open>
  The values of a \<^verbatim>\<open>float\<close>: the infinities, NaN, and the finite numbers that rounding
  to \<^verbatim>\<open>float\<close> leaves as they are.
\<close>

fun is_float :: "fp \<Rightarrow> bool" where
  "is_float (Fin x) = (binary32 x = Fin x)"
| "is_float v = True"

text \<open>The comparison \<^verbatim>\<open>a < b\<close>: false whenever an operand is a NaN.\<close>

fun fp_less :: "fp \<Rightarrow> fp \<Rightarrow> bool" where
  "fp_less NaN _ = False"
| "fp_less _ NaN = False"
| "fp_less (Fin a) (Fin b) = (a < b)"
| "fp_less (Fin a) PInf = True"
| "fp_less (Fin a) NInf = False"
| "fp_less PInf _ = False"
| "fp_less NInf NInf = False"
| "fp_less NInf _ = True"

text \<open>\<^verbatim>\<open>std::min(a, b)\<close> is \<^verbatim>\<open>(b < a) ? b : a\<close>.\<close>

definition std_min :: "fp \<Rightarrow> fp \<Rightarrow> fp" where
  "std_min a b = (if fp_less b a then b else a)"

text \<open>The product of two \<^verbatim>\<open>double\<close>s, rounded to \<^verbatim>\<open>double\<close>.\<close>

fun fp_mult :: "fp \<Rightarrow> fp \<Rightarrow> fp" where
  "fp_mult NaN _ = NaN"
| "fp_mult _ NaN = NaN"
| "fp_mult (Fin a) (Fin b) = binary64 (a * b)"
| "fp_mult (Fin a) PInf = (if a = 0 then NaN else if 0 < a then PInf else NInf)"
| "fp_mult (Fin a) NInf = (if a = 0 then NaN else if 0 < a then NInf else PInf)"
| "fp_mult PInf (Fin b) = (if b = 0 then NaN else if 0 < b then PInf else NInf)"
| "fp_mult NInf (Fin b) = (if b = 0 then NaN else if 0 < b then NInf else PInf)"
| "fp_mult PInf PInf = PInf"
| "fp_mult PInf NInf = NInf"
| "fp_mult NInf PInf = NInf"
| "fp_mult NInf NInf = PInf"

datatype error =
    InputPortNotConnected
  | RendererFailure
  | ImageIndexOutOfRange
  | UndefinedConversion
  | NonPositivePeriod

definition trunc_toward_zero :: "real \<Rightarrow> int" where
  "trunc_toward_zero r = (if 0 \<le> r then \<lfloor>r\<rfloor> else \<lceil>r\<rceil>)"

text \<open>
  \<^verbatim>\<open>static_cast<uint16_t>(d)\<close> truncates toward zero; C++ leaves the conversion undefined
  when the truncated value is not a value of \<^verbatim>\<open>uint16_t\<close> (and for infinities and NaN).
\<close>

fun static_cast_uint16 :: "fp \<Rightarrow> error + 16 word" where
  "static_cast_uint16 (Fin r) =
     (let t = trunc_toward_zero r
      in if 0 \<le> t \<and> t \<le> 65535 then Inr (word_of_int t) else Inl UndefinedConversion)"
| "static_cast_uint16 v = Inl UndefinedConversion"

section \<open>Images\<close>

text \<open>
  \<^verbatim>\<open>Image<kPixelType>\<close> (\<^verbatim>\<open>image.h\<close>): a width, a height and the pixels, addressed by
  column and row. The depth and label images have one channel, so a pixel is the value
  of channel 0. A new image is filled with zeros.
\<close>

record 'p Image =
  img_width :: int
  img_height :: int
  pixels :: "int \<times> int \<Rightarrow> 'p"

type_synonym ImageRgba8U = "(8 word \<times> 8 word \<times> 8 word \<times> 8 word) Image"
type_synonym ImageDepth32F = "fp Image"
type_synonym ImageDepth16U = "16 word Image"
type_synonym ImageLabel16I = "16 word Image"

definition new_image :: "int \<Rightarrow> int \<Rightarrow> 'p \<Rightarrow> 'p Image" where
  "new_image w h z = \<lparr>img_width = w, img_height = h, pixels = (\<lambda>_. z)\<rparr>"

definition in_image :: "'p Image \<Rightarrow> int \<Rightarrow> int \<Rightarrow> bool" where
  "in_image img x y \<longleftrightarrow> 0 \<le> x \<and> x < img_width img \<and> 0 \<le> y \<and> y < img_height img"

definition image_at :: "'p Image \<Rightarrow> int \<Rightarrow> int \<Rightarrow> error + 'p" where
  "image_at img x y =
     (if in_image img x y then Inr (pixels img (x, y)) else Inl ImageIndexOutOfRange)"

definition image_set :: "'p Image \<Rightarrow> int \<Rightarrow> int \<Rightarrow> 'p \<Rightarrow> error + 'p Image" where
  "image_set img x y v =
     (if in_image img x y then Inr (img\<lparr>pixels := (pixels img)((x, y) := v)\<rparr>)
      else Inl ImageIndexOutOfRange)"

section \<open>The depth quantizer\<close>

text \<open>
  \<^verbatim>\<open>const float kDepth16UOverflowDistance = std::numeric_limits<uint16_t>::max() / 1000.;\<close>
\<close>

definition kDepth16UOverflowDistance :: fp where
  "kDepth16UOverflowDistance = float_of_double (binary64 (65535 / 1000))"

text \<open>
  The body of the two loops of \<^verbatim>\<open>ConvertDepth32FTo16U\<close> on one pixel value:
  \<^verbatim>\<open>dist = std::min(d32.at(w, h)[0], kDepth16UOverflowDistance)\<close>, then
  \<^verbatim>\<open>static_cast<uint16_t>(dist * 1000)\<close>.
\<close>

definition depth_32F_to_16U :: "fp \<Rightarrow> error + 16 word" where
  "depth_32F_to_16U v =
     (let dist = std_min v kDepth16UOverflowDistance
      in static_cast_uint16 (fp_mult dist (Fin 1000)))"

definition convert_pixel :: "ImageDepth32F \<Rightarrow> int \<Rightarrow> int \<Rightarrow> ImageDepth16U \<Rightarrow> error + ImageDepth16U" where
  "convert_pixel d32 w h d16 =
     (case image_at d32 w h of
        Inl e \<Rightarrow> Inl e
      | Inr v \<Rightarrow>
          (case depth_32F_to_16U v of
             Inl e \<Rightarrow> Inl e
           | Inr m \<Rightarrow> image_set d16 w h m))"

text \<open>The inner loop, over the rows \<open>hs\<close> of column \<open>w\<close>, and the outer loop over the columns.\<close>

primrec convert_column :: "ImageDepth32F \<Rightarrow> int \<Rightarrow> int list \<Rightarrow> ImageDepth16U \<Rightarrow> error + ImageDepth16U" where
  "convert_column d32 w [] d16 = Inr d16"
| "convert_column d32 w (h # hs) d16 =
     (case convert_pixel d32 w h d16 of
        Inl e \<Rightarrow> Inl e
      | Inr d16' \<Rightarrow> convert_column d32 w hs d16')"

primrec convert_columns :: "ImageDepth32F \<Rightarrow> int list \<Rightarrow> ImageDepth16U \<Rightarrow> error + ImageDepth16U" where
  "convert_columns d32 [] d16 = Inr d16"
| "convert_columns d32 (w # ws) d16 =
     (case convert_column d32 w [0..img_height d16 - 1] d16 of
        Inl e \<Rightarrow> Inl e
      | Inr d16' \<Rightarrow> convert_columns d32 ws d16')"

definition ConvertDepth32FTo16U :: "ImageDepth32F \<Rightarrow> ImageDepth16U \<Rightarrow> error + ImageDepth16U" where
  "ConvertDepth32FTo16U d32 d16 = convert_columns d32 [0..img_width d16 - 1] d16"

text \<open>
  The quantizer in the words of the specification, on a finite depth in metres:
  \<open>min(float_value, (2^16 - 1) / 1000.0) * 1000\<close>, truncated.
\<close>

definition spec_depth_mm :: "real \<Rightarrow> int" where
  "spec_depth_mm x = trunc_toward_zero (min x ((2 ^ 16 - 1) / 1000) * 1000)"

text \<open>The pixel values on which the conversion to \<^verbatim>\<open>uint16_t\<close> is defined.\<close>

fun depth_value_ok :: "fp \<Rightarrow> bool" where
  "depth_value_ok (Fin x) = (- (1 / 1000) < x)"
| "depth_value_ok PInf = True"
| "depth_value_ok NInf = False"
| "depth_value_ok NaN = False"

text \<open>What the quantizer yields on such a value.\<close>

fun quantized :: "fp \<Rightarrow> 16 word" where
  "quantized (Fin x) = word_of_int (spec_depth_mm x)"
| "quantized v = 65535"

text \<open>
  The specification's re-quantization property re-expresses a quantized depth in metres
  and converts it again. The sensor has no such step; in the specification's words it is
  the millimetre value divided by 1000, here stored as a pixel of a float depth image,
  which is what \<^verbatim>\<open>ConvertDepth32FTo16U\<close> accepts.
\<close>

definition spec_metres_of_mm :: "16 word \<Rightarrow> fp" where
  "spec_metres_of_mm n = float_of_double (binary64 (real (unat n) / 1000))"

section \<open>Rigid transforms and poses\<close>

text \<open>
  \<^verbatim>\<open>RigidTransformd\<close> (\<^verbatim>\<open>math/rigid_transform.h\<close>) is a rotation matrix and a
  translation; \<^verbatim>\<open>X_AB * X_BC\<close> composes two of them. The matrix is kept by rows. No
  property below depends on the rounding inside a product, so the entries are real numbers.
\<close>

type_synonym Vector3 = "real \<times> real \<times> real"
type_synonym Matrix3 = "Vector3 \<times> Vector3 \<times> Vector3"
type_synonym Quaternion = "real \<times> real \<times> real \<times> real"

record RigidTransform =
  rotation :: Matrix3
  translation :: Vector3

fun dot3 :: "Vector3 \<Rightarrow> Vector3 \<Rightarrow> real" where
  "dot3 (a, b, c) (x, y, z) = a * x + b * y + c * z"

fun add3 :: "Vector3 \<Rightarrow> Vector3 \<Rightarrow> Vector3" where
  "add3 (a, b, c) (x, y, z) = (a + x, b + y, c + z)"

fun mat_vec :: "Matrix3 \<Rightarrow> Vector3 \<Rightarrow> Vector3" where
  "mat_vec (r1, r2, r3) v = (dot3 r1 v, dot3 r2 v, dot3 r3 v)"

fun row_mat :: "Vector3 \<Rightarrow> Matrix3 \<Rightarrow> Vector3" where
  "row_mat r ((a, b, c), (d, e, f), (g, h, i)) =
     (dot3 r (a, d, g), dot3 r (b, e, h), dot3 r (c, f, i))"

fun mat_mult :: "Matrix3 \<Rightarrow> Matrix3 \<Rightarrow> Matrix3" where
  "mat_mult (r1, r2, r3) m = (row_mat r1 m, row_mat r2 m, row_mat r3 m)"

definition rt_mult :: "RigidTransform \<Rightarrow> RigidTransform \<Rightarrow> RigidTransform" where
  "rt_mult X_AB X_BC =
     \<lparr>rotation = mat_mult (rotation X_AB) (rotation X_BC),
      translation = add3 (translation X_AB) (mat_vec (rotation X_AB) (translation X_BC))\<rparr>"

definition identity_matrix :: Matrix3 where
  "identity_matrix = ((1, 0, 0), (0, 1, 0), (0, 0, 1))"

text \<open>\<^verbatim>\<open>rendering::PoseVector<double>\<close>: a translation and a rotation as a quaternion.\<close>

record PoseVector =
  pv_translation :: Vector3
  pv_rotation :: Quaternion

definition set_translation :: "PoseVector \<Rightarrow> Vector3 \<Rightarrow> PoseVector" where
  "set_translation pv t = pv\<lparr>pv_translation := t\<rparr>"

definition set_rotation :: "PoseVector \<Rightarrow> Quaternion \<Rightarrow> PoseVector" where
  "set_rotation pv q = pv\<lparr>pv_rotation := q\<rparr>"

fun quaternion_norm_squared :: "Quaternion \<Rightarrow> real" where
  "quaternion_norm_squared (w, x, y, z) = w * w + x * x + y * y + z * z"

section \<open>Camera specifications\<close>

type_synonym FrameId = int

text \<open>
  \<^verbatim>\<open>CameraInfo\<close> (\<^verbatim>\<open>camera_info.h\<close>): the record holds what its accessors return. The
  focal lengths and the principal point are finite numbers, and \<^verbatim>\<open>width / 2.0 + 0.5\<close> is
  exact in \<^verbatim>\<open>double\<close>, so the intrinsics are real numbers.
\<close>

record CameraInfo =
  width :: int
  height :: int
  focal_x :: real
  focal_y :: real
  center_x :: real
  center_y :: real
  fov_y :: real

record ClippingRange =
  near :: real
  far :: real

record RenderCameraCore =
  renderer_name :: string
  intrinsics :: CameraInfo
  clipping :: ClippingRange
  sensor_pose_in_camera_body :: RigidTransform

record ColorRenderCamera =
  color_core :: RenderCameraCore
  show_window :: bool

record DepthRange =
  min_depth :: fp
  max_depth :: fp

record DepthRenderCamera =
  depth_core :: RenderCameraCore
  depth_range :: DepthRange

text \<open>The "simple" camera properties that the render calls of the query object take.\<close>

record CameraProperties =
  props_width :: int
  props_height :: int
  props_fov_y :: real
  props_renderer_name :: string

record DepthCameraProperties = CameraProperties +
  z_near :: fp
  z_far :: fp

section \<open>The continuous sensor\<close>

text \<open>An output port is declared with a name and a model value, from which its value is allocated.\<close>

record 'v OutputPort =
  port_name :: string
  model_value :: 'v

record RgbdSensor =
  parent_frame_id :: FrameId
  color_camera :: ColorRenderCamera
  depth_camera :: DepthRenderCamera
  X_PB :: RigidTransform
  query_object_input_port :: string
  color_image_port :: "ImageRgba8U OutputPort"
  depth_image_32F_port :: "ImageDepth32F OutputPort"
  depth_image_16U_port :: "ImageDepth16U OutputPort"
  label_image_port :: "ImageLabel16I OutputPort"
  X_WB_pose_port :: "PoseVector OutputPort"

text \<open>
  The two diagnostics of the constructor, with the values that their messages print:
  the focal lengths and principal points of the color and of the depth camera, and the
  maximum depth with the limit it exceeds.
\<close>

datatype Warning =
    ComplexCameraWarning real real real real real real real real
  | MaxDepthWarning fp fp

text \<open>
  \<^verbatim>\<open>const float kMaxValidDepth16UInM = (std::numeric_limits<uint16_t>::max() - 1) / 1000.;\<close>
\<close>

definition kMaxValidDepth16UInM :: fp where
  "kMaxValidDepth16UInM = float_of_double (binary64 ((65535 - 1) / 1000))"

text \<open>
  The constructor \<^verbatim>\<open>RgbdSensor(parent_id, X_PB, color_camera, depth_camera)\<close>, to which
  the two constructors from simple camera properties delegate. It returns the sensor and
  the warnings it logs, in order.
\<close>

definition RgbdSensor_ctor ::
  "FrameId \<Rightarrow> RigidTransform \<Rightarrow> ColorRenderCamera \<Rightarrow> DepthRenderCamera
     \<Rightarrow> RgbdSensor \<times> Warning list" where
  "RgbdSensor_ctor parent_id X_PB_in color_camera_in depth_camera_in =
     (let color_intrinsics = intrinsics (color_core color_camera_in);
          depth_intrinsics = intrinsics (depth_core depth_camera_in);
          log1 =
            (if focal_x color_intrinsics \<noteq> focal_y color_intrinsics
                \<or> center_x color_intrinsics \<noteq> real_of_int (width color_intrinsics) / 2 + 1 / 2
                \<or> center_y color_intrinsics \<noteq> real_of_int (height color_intrinsics) / 2 + 1 / 2
                \<or> focal_x depth_intrinsics \<noteq> focal_y depth_intrinsics
                \<or> center_x depth_intrinsics \<noteq> real_of_int (width depth_intrinsics) / 2 + 1 / 2
                \<or> center_y depth_intrinsics \<noteq> real_of_int (height depth_intrinsics) / 2 + 1 / 2
             then [ComplexCameraWarning
                     (focal_x color_intrinsics) (focal_y color_intrinsics)
                     (center_x color_intrinsics) (center_y color_intrinsics)
                     (focal_x depth_intrinsics) (focal_y depth_intrinsics)
                     (center_x depth_intrinsics) (center_y depth_intrinsics)]
             else []);
          sensor =
            \<lparr>parent_frame_id = parent_id,
             color_camera = color_camera_in,
             depth_camera = depth_camera_in,
             X_PB = X_PB_in,
             query_object_input_port = ''geometry_query'',
             color_image_port =
               \<lparr>port_name = ''color_image'',
                model_value =
                  new_image (width color_intrinsics) (height color_intrinsics) (0, 0, 0, 0)\<rparr>,
             depth_image_32F_port =
               \<lparr>port_name = ''depth_image_32f'',
                model_value =
                  new_image (width depth_intrinsics) (height depth_intrinsics) (Fin 0)\<rparr>,
             depth_image_16U_port =
               \<lparr>port_name = ''depth_image_16u'',
                model_value = new_image (width depth_intrinsics) (height depth_intrinsics) 0\<rparr>,
             label_image_port =
               \<lparr>port_name = ''label_image'',
                model_value = new_image (width color_intrinsics) (height color_intrinsics) 0\<rparr>,
             X_WB_pose_port =
               \<lparr>port_name = ''X_WB'',
                model_value = \<lparr>pv_translation = (0, 0, 0), pv_rotation = (1, 0, 0, 0)\<rparr>\<rparr>\<rparr>;
          max_depth_in = max_depth (depth_range depth_camera_in);
          log2 =
            (if fp_less kMaxValidDepth16UInM max_depth_in
             then [MaxDepthWarning max_depth_in kMaxValidDepth16UInM]
             else [])
      in (sensor, log1 @ log2))"

fun is_complex_camera_warning :: "Warning \<Rightarrow> bool" where
  "is_complex_camera_warning (ComplexCameraWarning _ _ _ _ _ _ _ _) = True"
| "is_complex_camera_warning (MaxDepthWarning _ _) = False"

fun is_max_depth_warning :: "Warning \<Rightarrow> bool" where
  "is_max_depth_warning (MaxDepthWarning _ _) = True"
| "is_max_depth_warning (ComplexCameraWarning _ _ _ _ _ _ _ _) = False"

text \<open>
  The invariant of the specification on one camera's intrinsics: radial symmetry and a
  centred principal point.
\<close>

definition spec_simple_intrinsics :: "CameraInfo \<Rightarrow> bool" where
  "spec_simple_intrinsics ci \<longleftrightarrow>
     focal_x ci = focal_y ci
     \<and> center_x ci = real_of_int (width ci) / 2 + 1 / 2
     \<and> center_y ci = real_of_int (height ci) / 2 + 1 / 2"

subsection \<open>The geometry query and the context\<close>

text \<open>
  \<^verbatim>\<open>QueryObject<double>\<close> is the collaborator behind the input port: the world pose of a
  frame and the three render operations, each writing into the image it is handed. Any of
  them may fail. The context holds the value of the input port when it is connected.
\<close>

record QueryObject =
  X_WF :: "FrameId \<Rightarrow> error + RigidTransform"
  RenderColorImage ::
    "CameraProperties \<Rightarrow> FrameId \<Rightarrow> RigidTransform \<Rightarrow> bool \<Rightarrow> ImageRgba8U
       \<Rightarrow> error + ImageRgba8U"
  RenderDepthImage ::
    "DepthCameraProperties \<Rightarrow> FrameId \<Rightarrow> RigidTransform \<Rightarrow> ImageDepth32F
       \<Rightarrow> error + ImageDepth32F"
  RenderLabelImage ::
    "CameraProperties \<Rightarrow> FrameId \<Rightarrow> RigidTransform \<Rightarrow> bool \<Rightarrow> ImageLabel16I
       \<Rightarrow> error + ImageLabel16I"

record Context =
  query_object_input :: "QueryObject option"

text \<open>
  What an output computation does to its collaborators, in order: evaluating the input
  port and calling the query object, with the arguments of each call.
\<close>

datatype Event =
    EvalQueryObjectPort
  | CallX_WF FrameId
  | CallRenderColorImage CameraProperties FrameId RigidTransform bool
  | CallRenderDepthImage DepthCameraProperties FrameId RigidTransform
  | CallRenderLabelImage CameraProperties FrameId RigidTransform bool

text \<open>\<^verbatim>\<open>get_query_object\<close>: evaluating an input port that is not connected throws.\<close>

definition get_query_object :: "Context \<Rightarrow> Event list \<times> (error + QueryObject)" where
  "get_query_object context =
     ([EvalQueryObjectPort],
      case query_object_input context of
        None \<Rightarrow> Inl InputPortNotConnected
      | Some query_object \<Rightarrow> Inr query_object)"

subsection \<open>The output computations\<close>

definition CalcColorImage ::
  "RgbdSensor \<Rightarrow> Context \<Rightarrow> ImageRgba8U \<Rightarrow> Event list \<times> (error + ImageRgba8U)" where
  "CalcColorImage s context color_image =
     (case get_query_object context of
        (tr, Inl e) \<Rightarrow> (tr, Inl e)
      | (tr, Inr query_object) \<Rightarrow>
          (let core = color_core (color_camera s);
               simple_camera =
                 \<lparr>props_width = width (intrinsics core),
                  props_height = height (intrinsics core),
                  props_fov_y = fov_y (intrinsics core),
                  props_renderer_name = renderer_name core\<rparr>;
               X_PC = rt_mult (X_PB s) (sensor_pose_in_camera_body core)
           in (tr @ [CallRenderColorImage simple_camera (parent_frame_id s) X_PC
                       (show_window (color_camera s))],
               RenderColorImage query_object simple_camera (parent_frame_id s) X_PC
                 (show_window (color_camera s)) color_image)))"

definition CalcDepthImage32F ::
  "RgbdSensor \<Rightarrow> Context \<Rightarrow> ImageDepth32F \<Rightarrow> Event list \<times> (error + ImageDepth32F)" where
  "CalcDepthImage32F s context depth_image =
     (case get_query_object context of
        (tr, Inl e) \<Rightarrow> (tr, Inl e)
      | (tr, Inr query_object) \<Rightarrow>
          (let core = depth_core (depth_camera s);
               simple_camera =
                 \<lparr>props_width = width (intrinsics core),
                  props_height = height (intrinsics core),
                  props_fov_y = fov_y (intrinsics core),
                  props_renderer_name = renderer_name core,
                  z_near = min_depth (depth_range (depth_camera s)),
                  z_far = max_depth (depth_range (depth_camera s))\<rparr>;
               X_PD = rt_mult (X_PB s) (sensor_pose_in_camera_body core)
           in (tr @ [CallRenderDepthImage simple_camera (parent_frame_id s) X_PD],
               RenderDepthImage query_object simple_camera (parent_frame_id s) X_PD
                 depth_image)))"

definition CalcDepthImage16U ::
  "RgbdSensor \<Rightarrow> Context \<Rightarrow> ImageDepth16U \<Rightarrow> Event list \<times> (error + ImageDepth16U)" where
  "CalcDepthImage16U s context depth_image =
     (let depth32 = new_image (img_width depth_image) (img_height depth_image) (Fin 0)
      in case CalcDepthImage32F s context depth32 of
           (tr, Inl e) \<Rightarrow> (tr, Inl e)
         | (tr, Inr d32) \<Rightarrow> (tr, ConvertDepth32FTo16U d32 depth_image))"

definition CalcLabelImage ::
  "RgbdSensor \<Rightarrow> Context \<Rightarrow> ImageLabel16I \<Rightarrow> Event list \<times> (error + ImageLabel16I)" where
  "CalcLabelImage s context label_image =
     (case get_query_object context of
        (tr, Inl e) \<Rightarrow> (tr, Inl e)
      | (tr, Inr query_object) \<Rightarrow>
          (let core = color_core (color_camera s);
               simple_camera =
                 \<lparr>props_width = width (intrinsics core),
                  props_height = height (intrinsics core),
                  props_fov_y = fov_y (intrinsics core),
                  props_renderer_name = renderer_name core\<rparr>;
               X_PC = rt_mult (X_PB s) (sensor_pose_in_camera_body core)
           in (tr @ [CallRenderLabelImage simple_camera (parent_frame_id s) X_PC
                       (show_window (color_camera s))],
               RenderLabelImage query_object simple_camera (parent_frame_id s) X_PC
                 (show_window (color_camera s)) label_image)))"

text \<open>
  The first half of \<^verbatim>\<open>CalcX_WB\<close>, which computes \<^verbatim>\<open>X_WB\<close>; the specification calls it
  \<^verbatim>\<open>ComputeBodyWorldPose\<close>. The identifier that \<^verbatim>\<open>SceneGraph<double>::world_frame_id()\<close>
  returns is fixed by the scene graph, not by the sensor: it is the parameter
  \<open>world_frame_id\<close>.
\<close>

definition ComputeBodyWorldPose ::
  "FrameId \<Rightarrow> RgbdSensor \<Rightarrow> Context \<Rightarrow> Event list \<times> (error + RigidTransform)" where
  "ComputeBodyWorldPose world_frame_id s context =
     (if parent_frame_id s = world_frame_id then ([], Inr (X_PB s))
      else
        (case get_query_object context of
           (tr, Inl e) \<Rightarrow> (tr, Inl e)
         | (tr, Inr query_object) \<Rightarrow>
             (tr @ [CallX_WF (parent_frame_id s)],
              case X_WF query_object (parent_frame_id s) of
                Inl e \<Rightarrow> Inl e
              | Inr X_WP \<Rightarrow> Inr (rt_mult X_WP (X_PB s)))))"

text \<open>
  \<^verbatim>\<open>CalcX_WB\<close>. \<^verbatim>\<open>RotationMatrix::ToQuaternion\<close> belongs to the math library
  (\<^verbatim>\<open>math/rotation_matrix.h\<close>) and is the parameter \<open>ToQuaternion\<close>.
\<close>

definition CalcX_WB ::
  "FrameId \<Rightarrow> (Matrix3 \<Rightarrow> Quaternion) \<Rightarrow> RgbdSensor \<Rightarrow> Context \<Rightarrow> PoseVector
     \<Rightarrow> Event list \<times> (error + PoseVector)" where
  "CalcX_WB world_frame_id ToQuaternion s context pose_vector =
     (case ComputeBodyWorldPose world_frame_id s context of
        (tr, Inl e) \<Rightarrow> (tr, Inl e)
      | (tr, Inr X_WB) \<Rightarrow>
          (tr, Inr (set_rotation (set_translation pose_vector (translation X_WB))
                      (ToQuaternion (rotation X_WB)))))"

text \<open>
  Evaluating an output port allocates its value from the model value of the port and
  runs the port's computation on the context.
\<close>

definition Eval_depth_image_32F ::
  "RgbdSensor \<Rightarrow> Context \<Rightarrow> Event list \<times> (error + ImageDepth32F)" where
  "Eval_depth_image_32F s context =
     CalcDepthImage32F s context (model_value (depth_image_32F_port s))"

definition Eval_depth_image_16U ::
  "RgbdSensor \<Rightarrow> Context \<Rightarrow> Event list \<times> (error + ImageDepth16U)" where
  "Eval_depth_image_16U s context =
     CalcDepthImage16U s context (model_value (depth_image_16U_port s))"

text \<open>
  The 16-bit depth output in the words of the specification: the 32-bit depth output of
  the same context, then the depth quantizer.
\<close>

definition spec_depth_image_16U ::
  "RgbdSensor \<Rightarrow> Context \<Rightarrow> Event list \<times> (error + ImageDepth16U)" where
  "spec_depth_image_16U s context =
     (case Eval_depth_image_32F s context of
        (tr, Inl e) \<Rightarrow> (tr, Inl e)
      | (tr, Inr d32) \<Rightarrow>
          (tr, ConvertDepth32FTo16U d32 (model_value (depth_image_16U_port s))))"

text \<open>The poses that a trace hands to the color-render operation.\<close>

fun color_render_poses :: "Event list \<Rightarrow> RigidTransform list" where
  "color_render_poses [] = []"
| "color_render_poses (CallRenderColorImage _ _ X _ # es) = X # color_render_poses es"
| "color_render_poses (_ # es) = color_render_poses es"

section \<open>The discrete sensor\<close>

text \<open>
  \<^verbatim>\<open>RgbdSensorDiscrete\<close> is a diagram: the sensor, one \<^verbatim>\<open>ZeroOrderHold\<close> per sampled
  output, the connections between them and the exported ports.
\<close>

datatype AbstractValue =
    ColorValue ImageRgba8U
  | Depth32FValue ImageDepth32F
  | Depth16UValue ImageDepth16U
  | LabelValue ImageLabel16I

record ZeroOrderHold =
  zoh_period :: fp
  zoh_model_value :: AbstractValue

text \<open>
  Modelled from the spec: the constructor of \<^verbatim>\<open>ZeroOrderHold\<close>
  (\<^verbatim>\<open>systems/primitives/zero_order_hold.h\<close>), by which the sampling period is checked,
  is not part of the sensor's source file. The specification asks for "a strictly positive
  sampling period" and says that "constructing with a non-positive period is a fatal
  construction-time error".
\<close>

definition ZeroOrderHold_ctor :: "fp \<Rightarrow> AbstractValue \<Rightarrow> error + ZeroOrderHold" where
  "ZeroOrderHold_ctor period_sec abstract_model_value =
     (if fp_less (Fin 0) period_sec
      then Inr \<lparr>zoh_period = period_sec, zoh_model_value = abstract_model_value\<rparr>
      else Inl NonPositivePeriod)"

datatype System = SensorSystem RgbdSensor | HoldSystem ZeroOrderHold

text \<open>
  A port of a system of the diagram: an output port of the sensor by its name, the input
  port of the sensor, or the input or output port of the hold with a given index among
  the systems.
\<close>

datatype OutputPortRef = SensorOutput string | HoldOutput nat

datatype InputPortRef = SensorQueryInput | HoldInput nat

text \<open>
  \<^verbatim>\<open>DiagramBuilder<double>\<close> records what it is asked for. \<^verbatim>\<open>AddSystem\<close> returns the
  index of the new system, \<^verbatim>\<open>ExportInput\<close> and \<^verbatim>\<open>ExportOutput\<close> the index of the new
  port of the diagram.
\<close>

record DiagramBuilder =
  systems :: "System list"
  connections :: "(OutputPortRef \<times> InputPortRef) list"
  exported_inputs :: "(InputPortRef \<times> string) list"
  exported_outputs :: "(OutputPortRef \<times> string) list"

definition new_builder :: DiagramBuilder where
  "new_builder = \<lparr>systems = [], connections = [], exported_inputs = [], exported_outputs = []\<rparr>"

definition AddSystem :: "DiagramBuilder \<Rightarrow> System \<Rightarrow> nat \<times> DiagramBuilder" where
  "AddSystem b sys = (length (systems b), b\<lparr>systems := systems b @ [sys]\<rparr>)"

definition Connect :: "DiagramBuilder \<Rightarrow> OutputPortRef \<Rightarrow> InputPortRef \<Rightarrow> DiagramBuilder" where
  "Connect b src dest = b\<lparr>connections := connections b @ [(src, dest)]\<rparr>"

definition ExportInput :: "DiagramBuilder \<Rightarrow> InputPortRef \<Rightarrow> string \<Rightarrow> nat \<times> DiagramBuilder" where
  "ExportInput b port name =
     (length (exported_inputs b), b\<lparr>exported_inputs := exported_inputs b @ [(port, name)]\<rparr>)"

definition ExportOutput :: "DiagramBuilder \<Rightarrow> OutputPortRef \<Rightarrow> string \<Rightarrow> nat \<times> DiagramBuilder" where
  "ExportOutput b port name =
     (length (exported_outputs b), b\<lparr>exported_outputs := exported_outputs b @ [(port, name)]\<rparr>)"

record RgbdSensorDiscrete =
  camera :: nat
  period :: fp
  query_object_port :: nat
  output_port_color_image :: nat
  output_port_depth_image_32F :: nat
  output_port_depth_image_16U :: nat
  output_port_label_image :: "nat option"
  X_WB_output_port :: nat
  diagram :: DiagramBuilder

text \<open>
  The three statements that the constructor repeats for each sampled output: add a
  \<^verbatim>\<open>ZeroOrderHold\<close> with the period and the model value, connect the sensor's output port
  to its input, and export its output under a name.
\<close>

definition hold_stage ::
  "fp \<Rightarrow> AbstractValue \<Rightarrow> OutputPortRef \<Rightarrow> string \<Rightarrow> DiagramBuilder
     \<Rightarrow> error + (nat \<times> DiagramBuilder)" where
  "hold_stage period_in value src name b =
     (case ZeroOrderHold_ctor period_in value of
        Inl e \<Rightarrow> Inl e
      | Inr zoh \<Rightarrow>
          (let (k, b1) = AddSystem b (HoldSystem zoh);
               b2 = Connect b1 src (HoldInput k)
           in Inr (ExportOutput b2 (HoldOutput k) name)))"

text \<open>
  The constructor \<^verbatim>\<open>RgbdSensorDiscrete(camera, period, render_label_image)\<close>. The member
  \<^verbatim>\<open>output_port_label_image_\<close> is assigned only when the label image is sampled. The
  diagram that \<^verbatim>\<open>BuildInto\<close> makes of the builder is the builder's final content.
\<close>

definition RgbdSensorDiscrete_ctor ::
  "RgbdSensor \<Rightarrow> fp \<Rightarrow> bool \<Rightarrow> error + RgbdSensorDiscrete" where
  "RgbdSensorDiscrete_ctor camera_in period_in render_label_image =
     (let color_camera_info = intrinsics (color_core (color_camera camera_in));
          depth_camera_info = intrinsics (depth_core (depth_camera camera_in));
          (cam, b0) = AddSystem new_builder (SensorSystem camera_in);
          (q, b1) = ExportInput b0 SensorQueryInput ''geometry_query''
      in case hold_stage period_in
                (ColorValue (new_image (width color_camera_info) (height color_camera_info)
                   (0, 0, 0, 0)))
                (SensorOutput (port_name (color_image_port camera_in))) ''color_image'' b1 of
           Inl e \<Rightarrow> Inl e
         | Inr (color, b2) \<Rightarrow>
        (case hold_stage period_in
                (Depth32FValue (new_image (width depth_camera_info) (height depth_camera_info)
                   (Fin 0)))
                (SensorOutput (port_name (depth_image_32F_port camera_in))) ''depth_image_32f'' b2 of
           Inl e \<Rightarrow> Inl e
         | Inr (depth32, b3) \<Rightarrow>
        (case hold_stage period_in
                (Depth16UValue (new_image (width depth_camera_info) (height depth_camera_info) 0))
                (SensorOutput (port_name (depth_image_16U_port camera_in))) ''depth_image_16u'' b3 of
           Inl e \<Rightarrow> Inl e
         | Inr (depth16, b4) \<Rightarrow>
        (case (if render_label_image
               then (case hold_stage period_in
                             (LabelValue (new_image (width color_camera_info)
                                (height color_camera_info) 0))
                             (SensorOutput (port_name (label_image_port camera_in)))
                             ''label_image'' b4 of
                       Inl e \<Rightarrow> Inl e
                     | Inr (label, b5) \<Rightarrow> Inr (Some label, b5))
               else Inr (None, b4)) of
           Inl e \<Rightarrow> Inl e
         | Inr (label, b5) \<Rightarrow>
             (let (pose, b6) =
                    ExportOutput b5 (SensorOutput (port_name (X_WB_pose_port camera_in))) ''X_WB''
              in Inr \<lparr>camera = cam,
                      period = period_in,
                      query_object_port = q,
                      output_port_color_image = color,
                      output_port_depth_image_32F = depth32,
                      output_port_depth_image_16U = depth16,
                      output_port_label_image = label,
                      X_WB_output_port = pose,
                      diagram = b6\<rparr>)))))"

text \<open>The hold stage, if any, whose output the diagram exports under a name.\<close>

definition exported_hold :: "DiagramBuilder \<Rightarrow> string \<Rightarrow> (nat \<times> ZeroOrderHold) list" where
  "exported_hold d name =
     [(k, z). (p, n) \<leftarrow> exported_outputs d, n = name,
              k \<leftarrow> (case p of HoldOutput k \<Rightarrow> [k] | SensorOutput _ \<Rightarrow> []),
              z \<leftarrow> (if k < length (systems d)
                     then (case systems d ! k of HoldSystem z \<Rightarrow> [z] | SensorSystem _ \<Rightarrow> [])
                     else [])]"

section \<open>A stub geometry service and an example sensor\<close>

text \<open>
  A geometry stub on which the properties are tried: every frame has the world pose \<open>X\<close>,
  the depth render fills the image with the depth \<open>d\<close>, and the color and label renders
  leave the image as it is.
\<close>

definition translation_transform :: "Vector3 \<Rightarrow> RigidTransform" where
  "translation_transform t = \<lparr>rotation = identity_matrix, translation = t\<rparr>"

definition stub_query_object :: "RigidTransform \<Rightarrow> fp \<Rightarrow> QueryObject" where
  "stub_query_object X d =
     \<lparr>X_WF = (\<lambda>_. Inr X),
      RenderColorImage = (\<lambda>_ _ _ _ img. Inr img),
      RenderDepthImage = (\<lambda>_ _ _ img. Inr (img\<lparr>pixels := (\<lambda>_. d)\<rparr>)),
      RenderLabelImage = (\<lambda>_ _ _ _ img. Inr img)\<rparr>"

definition example_intrinsics :: CameraInfo where
  "example_intrinsics =
     \<lparr>width = 640, height = 480, focal_x = 500, focal_y = 500,
      center_x = 641 / 2, center_y = 481 / 2, fov_y = 4 / 5\<rparr>"

definition example_core :: "RigidTransform \<Rightarrow> RenderCameraCore" where
  "example_core X_BC =
     \<lparr>renderer_name = ''renderer'', intrinsics = example_intrinsics,
      clipping = \<lparr>near = 1 / 100, far = 10\<rparr>, sensor_pose_in_camera_body = X_BC\<rparr>"

definition example_color_camera :: ColorRenderCamera where
  "example_color_camera =
     \<lparr>color_core = example_core (translation_transform (0, 0, 1)), show_window = False\<rparr>"

definition example_depth_camera :: "fp \<Rightarrow> DepthRenderCamera" where
  "example_depth_camera far_depth =
     \<lparr>depth_core = example_core (translation_transform (0, 0, 1)),
      depth_range = \<lparr>min_depth = Fin (1 / 10), max_depth = far_depth\<rparr>\<rparr>"

definition example_sensor :: "FrameId \<Rightarrow> RgbdSensor" where
  "example_sensor parent_id =
     fst (RgbdSensor_ctor parent_id (translation_transform (0, 1, 0)) example_color_camera
            (example_depth_camera (Fin 5)))"

section \<open>Properties of the rounding\<close>

lemma pow2_pos: "0 < pow2 k"
  by (simp add: pow2_def)

lemma real_power_le_of_int: "2 ^ k \<le> (n::int) \<Longrightarrow> (2::real) ^ k \<le> real_of_int n"
proof -
  assume "2 ^ k \<le> n"
  then have "real_of_int (2 ^ k) \<le> real_of_int n" by (simp only: of_int_le_iff)
  then show ?thesis by simp
qed

lemma real_succ_le_power: "(n::int) < 2 ^ k \<Longrightarrow> real_of_int n + 1 \<le> 2 ^ k"
proof -
  assume "n < 2 ^ k"
  then have "n + 1 \<le> 2 ^ k" by simp
  then have "real_of_int (n + 1) \<le> real_of_int (2 ^ k)" by (simp only: of_int_le_iff)
  then show ?thesis by simp
qed

lemma ilog2_bounds:
  assumes "0 < x"
  shows "pow2 (ilog2 x) \<le> x \<and> x < pow2 (ilog2 x + 1)"
proof (cases "1 \<le> x")
  case True
  define n where "n = \<lfloor>x\<rfloor>"
  have n: "0 < n" "real_of_int n \<le> x" "x < real_of_int n + 1"
    using True by (simp_all add: n_def)
  have b: "1 \<le> bitlen n"
    using n(1) by (simp add: bitlen_ge_iff_power)
  from bitlen_bounds [OF n(1)]
  have lo: "2 ^ nat (bitlen n - 1) \<le> n" and hi: "n < 2 ^ nat (bitlen n)" by simp_all
  have A: "(2::real) ^ nat (bitlen n - 1) \<le> x"
    using real_power_le_of_int [OF lo] n(2) by (rule order_trans)
  have B: "x < 2 ^ nat (bitlen n)"
    using n(3) real_succ_le_power [OF hi] by (rule less_le_trans)
  have i: "ilog2 x = bitlen n - 1"
    using True by (simp add: ilog2_def n_def)
  have "0 \<le> bitlen n - 1" "bitlen n - 1 + 1 = bitlen n" "0 \<le> bitlen n"
    using b by simp_all
  then show ?thesis
    unfolding i pow2_def using A B by simp
next
  case False
  define c where "c = \<lceil>1 / x\<rceil>"
  define m where "m = c - 1"
  have inv: "1 < 1 / x" using False assms by simp
  have c: "real_of_int c - 1 < 1 / x" "1 / x \<le> real_of_int c"
    unfolding c_def by linarith+
  have m: "0 < m" using inv c(2) unfolding m_def by linarith
  have b: "1 \<le> bitlen m"
    using m by (simp add: bitlen_ge_iff_power)
  from bitlen_bounds [OF m]
  have lo: "2 ^ nat (bitlen m - 1) \<le> m" and hi: "m < 2 ^ nat (bitlen m)" by simp_all
  have "real_of_int m < 1 / x"
    using c(1) unfolding m_def by simp
  with real_power_le_of_int [OF lo] have l: "(2::real) ^ nat (bitlen m - 1) < 1 / x"
    by (rule le_less_trans)
  have "1 / x \<le> real_of_int m + 1"
    using c(2) unfolding m_def by simp
  from this real_succ_le_power [OF hi] have u: "1 / x \<le> 2 ^ nat (bitlen m)"
    by (rule order_trans)
  have lower: "1 / 2 ^ nat (bitlen m) \<le> x"
    using u assms by (simp add: field_simps)
  have upper: "x < 1 / 2 ^ nat (bitlen m - 1)"
    using l assms by (simp add: field_simps)
  have i: "ilog2 x = - bitlen m"
    using False by (simp add: ilog2_def c_def m_def)
  show ?thesis
  proof (cases "bitlen m = 1")
    case True
    then show ?thesis
      unfolding i pow2_def using lower upper by simp
  next
    case False
    with b have "\<not> 0 \<le> - bitlen m" "\<not> 0 \<le> - bitlen m + 1"
      "nat (- (- bitlen m)) = nat (bitlen m)" "nat (- (- bitlen m + 1)) = nat (bitlen m - 1)"
      by simp_all
    then show ?thesis
      unfolding i pow2_def using lower upper by simp
  qed
qed

lemma round_ties_even_nearest: "\<bar>real_of_int (round_ties_even x) - x\<bar> \<le> 1 / 2"
proof -
  define d where "d = x - real_of_int \<lfloor>x\<rfloor>"
  have d: "0 \<le> d" "d < 1" unfolding d_def by linarith+
  have x: "x = real_of_int \<lfloor>x\<rfloor> + d" by (simp add: d_def)
  have r: "round_ties_even x = \<lfloor>x\<rfloor> \<and> d \<le> 1 / 2
      \<or> round_ties_even x = \<lfloor>x\<rfloor> + 1 \<and> 1 / 2 \<le> d"
    unfolding round_ties_even_def Let_def d_def [symmetric] by simp
  then show ?thesis
  proof
    assume "round_ties_even x = \<lfloor>x\<rfloor> \<and> d \<le> 1 / 2"
    then have "real_of_int (round_ties_even x) - x = - d" "d \<le> 1 / 2"
      using x by simp_all
    with d show ?thesis by simp
  next
    assume "round_ties_even x = \<lfloor>x\<rfloor> + 1 \<and> 1 / 2 \<le> d"
    then have "real_of_int (round_ties_even x) - x = 1 - d" "1 / 2 \<le> d"
      using x by simp_all
    with d show ?thesis by simp
  qed
qed

lemma binary_round_error:
  assumes "binary_round p emin emax x = Fin y"
  shows "\<exists>m. y = real_of_int m * pow2 (max (ilog2 \<bar>x\<bar>) emin - int p + 1)
           \<and> \<bar>y - x\<bar> \<le> pow2 (max (ilog2 \<bar>x\<bar>) emin - int p + 1) / 2"
proof (cases "x = 0")
  case True
  with assms have "y = 0" by (simp add: binary_round_def)
  with True have "y = real_of_int 0 * pow2 (max (ilog2 \<bar>x\<bar>) emin - int p + 1)
           \<and> \<bar>y - x\<bar> \<le> pow2 (max (ilog2 \<bar>x\<bar>) emin - int p + 1) / 2"
    using pow2_pos [of "max (ilog2 \<bar>x\<bar>) emin - int p + 1"] by simp
  then show ?thesis ..
next
  case False
  define u where "u = pow2 (max (ilog2 \<bar>x\<bar>) emin - int p + 1)"
  have u: "0 < u" by (simp add: u_def pow2_pos)
  from assms False have y: "y = real_of_int (round_ties_even (x / u)) * u"
    by (simp add: binary_round_def Let_def u_def split: if_splits)
  have "y - x = (real_of_int (round_ties_even (x / u)) - x / u) * u"
    using u by (simp add: y field_simps)
  then have "\<bar>y - x\<bar> = \<bar>real_of_int (round_ties_even (x / u)) - x / u\<bar> * u"
    using u by (simp add: abs_mult)
  also have "\<dots> \<le> 1 / 2 * u"
    using u round_ties_even_nearest [of "x / u"] by (intro mult_right_mono) simp_all
  finally have "y = real_of_int (round_ties_even (x / u)) * u \<and> \<bar>y - x\<bar> \<le> u / 2"
    using y by simp
  then show ?thesis unfolding u_def ..
qed

lemma pow2_power_int: "pow2 k = power_int 2 k"
  by (simp add: pow2_def power_int_def power_inverse [symmetric] inverse_eq_divide power_one_over)

lemma pow2_add: "pow2 (a + b) = pow2 a * pow2 b"
  by (simp add: pow2_power_int power_int_add)

lemma pow2_mono: "a \<le> b \<Longrightarrow> pow2 a \<le> pow2 b"
  by (simp add: pow2_power_int power_int_increasing)

lemma pow2_less_cancel:
  assumes "pow2 a < pow2 b"
  shows "a < b"
proof (rule ccontr)
  assume "\<not> a < b"
  then have "pow2 b \<le> pow2 a" by (intro pow2_mono) simp
  with assms show False by simp
qed

lemma pow2_of_int: "0 \<le> k \<Longrightarrow> pow2 k = real_of_int (2 ^ nat k)"
  by (simp add: pow2_def)

lemma round_ties_even_of_int: "round_ties_even (real_of_int n) = n"
  by (simp add: round_ties_even_def)

text \<open>A value on the grid of the format is left as it is.\<close>

lemma binary_round_exact:
  assumes x: "x = real_of_int m * pow2 k" and nz: "x \<noteq> 0"
    and grid: "max (ilog2 \<bar>x\<bar>) emin - int p + 1 \<le> k"
    and fin: "\<bar>x\<bar> < pow2 (emax + 1)"
  shows "binary_round p emin emax x = Fin x"
proof -
  define q where "q = max (ilog2 \<bar>x\<bar>) emin - int p + 1"
  have "pow2 k = pow2 ((k - q) + q)" by simp
  also have "\<dots> = pow2 (k - q) * pow2 q" by (rule pow2_add)
  also have "pow2 (k - q) = real_of_int (2 ^ nat (k - q))"
    using grid by (intro pow2_of_int) (simp add: q_def)
  finally have k: "pow2 k = real_of_int (2 ^ nat (k - q)) * pow2 q" .
  have "x / pow2 q = real_of_int (m * 2 ^ nat (k - q))"
    using pow2_pos [of q] by (simp add: x k)
  then have "round_ties_even (x / pow2 q) = m * 2 ^ nat (k - q)"
    by (simp only: round_ties_even_of_int)
  then have "real_of_int (round_ties_even (x / pow2 q)) * pow2 q = x"
    by (simp add: x k)
  then show ?thesis
    using nz fin by (simp add: binary_round_def Let_def q_def [symmetric])
qed

text \<open>
  The product \<^verbatim>\<open>dist * 1000\<close> of the quantizer is exact: for every \<^verbatim>\<open>float\<close> \<open>x\<close> (a
  number that rounding to \<^verbatim>\<open>float\<close> leaves as it is), rounding \<open>x * 1000\<close> to
  \<^verbatim>\<open>double\<close> leaves it as it is.
\<close>

lemma binary64_float_times_1000:
  assumes "binary32 x = Fin x"
  shows "binary64 (x * 1000) = Fin (x * 1000)"
proof (cases "x = 0")
  case True
  then show ?thesis by (simp add: binary64_def binary_round_def)
next
  case False
  define e where "e = max (ilog2 \<bar>x\<bar>) (- 126)"
  define k where "k = e - 23"
  define m where "m = round_ties_even (x / pow2 k)"
  from assms False have x: "x = real_of_int m * pow2 k" and fin32: "\<bar>x\<bar> < pow2 128"
    by (simp_all add: binary32_def binary_round_def Let_def e_def [symmetric] k_def m_def
        split: if_splits)
  have pos: "0 < \<bar>x\<bar>" using False by simp
  note b = ilog2_bounds [OF pos]
  have "pow2 (ilog2 \<bar>x\<bar>) < pow2 128" using b fin32 by simp
  then have "ilog2 \<bar>x\<bar> < 128" by (rule pow2_less_cancel)
  then have e: "- 126 \<le> e" "e \<le> 127" by (simp_all add: e_def)
  have "\<bar>x\<bar> < pow2 (ilog2 \<bar>x\<bar> + 1)" using b by simp
  also have "\<dots> \<le> pow2 (e + 1)" by (intro pow2_mono) (simp add: e_def)
  finally have xb: "\<bar>x\<bar> < pow2 (e + 1)" .
  have "\<bar>x * 1000\<bar> = \<bar>x\<bar> * 1000" by simp
  also have "\<dots> < pow2 (e + 1) * pow2 10"
    using xb pos pow2_pos [of "e + 1"] by (intro mult_strict_mono) (simp_all add: pow2_def)
  also have "\<dots> = pow2 (e + 11)"
  proof -
    have "e + 11 = (e + 1) + 10" by simp
    then show ?thesis by (simp only: pow2_add)
  qed
  finally have Xb: "\<bar>x * 1000\<bar> < pow2 (e + 11)" .
  have Xpos: "0 < \<bar>x * 1000\<bar>" using False by simp
  have "pow2 (ilog2 \<bar>x * 1000\<bar>) < pow2 (e + 11)"
    using ilog2_bounds [OF Xpos] Xb by simp
  then have E: "ilog2 \<bar>x * 1000\<bar> < e + 11" by (rule pow2_less_cancel)
  have grid: "max (ilog2 \<bar>x * 1000\<bar>) (- 1022) - int 53 + 1 \<le> k"
    using E e by (simp add: k_def)
  have "pow2 (e + 11) \<le> pow2 (1023 + 1)" using e by (intro pow2_mono) simp
  with Xb have fin64: "\<bar>x * 1000\<bar> < pow2 (1023 + 1)" by simp
  have X: "x * 1000 = real_of_int (m * 1000) * pow2 k" by (simp add: x)
  have nz: "x * 1000 \<noteq> 0" using False by simp
  show ?thesis
    unfolding binary64_def by (rule binary_round_exact [OF X nz grid fin64])
qed

section \<open>Properties of the depth quantizer\<close>

subsection \<open>The two constants\<close>

lemma binary64_65535: "binary64 (65535 / 1000) = Fin (2305807824841605 / 2 ^ 45)"
  by (simp add: binary64_def binary_round_def ilog2_def bitlen_def compute_floorlog
      pow2_def round_ties_even_def Let_def)

lemma kDepth16UOverflowDistance_value: "kDepth16UOverflowDistance = Fin (2147451 / 2 ^ 15)"
  unfolding kDepth16UOverflowDistance_def binary64_65535
  by (simp add: binary32_def binary_round_def ilog2_def bitlen_def compute_floorlog
      pow2_def round_ties_even_def Let_def)

lemma binary64_65534: "binary64 ((65535 - 1) / 1000) = Fin (4611545280939033 / 2 ^ 46)"
  by (simp add: binary64_def binary_round_def ilog2_def bitlen_def compute_floorlog
      pow2_def round_ties_even_def Let_def)

lemma kMaxValidDepth16UInM_value: "kMaxValidDepth16UInM = Fin (1073709 / 2 ^ 14)"
  unfolding kMaxValidDepth16UInM_def binary64_65534
  by (simp add: binary32_def binary_round_def ilog2_def bitlen_def compute_floorlog
      pow2_def round_ties_even_def Let_def)

subsection \<open>One pixel\<close>

lemma spec_depth_mm_range:
  "- (1 / 1000) < x \<Longrightarrow> 0 \<le> spec_depth_mm x \<and> spec_depth_mm x \<le> 65535"
  unfolding spec_depth_mm_def trunc_toward_zero_def
  by (auto simp: min_def floor_le_iff le_floor_iff ceiling_le_iff le_ceiling_iff)

lemma spec_depth_mm_saturated: "65535 / 1000 \<le> x \<Longrightarrow> spec_depth_mm x = 65535"
  unfolding spec_depth_mm_def trunc_toward_zero_def
  by (simp add: min_absorb2)

lemmas binary32_roundoff =
  binary32_def binary_round_def ilog2_def bitlen_def compute_floorlog pow2_def
  round_ties_even_def Let_def

lemma fp_mult_float_1000: "binary32 x = Fin x \<Longrightarrow> fp_mult (Fin x) (Fin 1000) = Fin (x * 1000)"
  by (simp add: binary64_float_times_1000)

lemma kDepth16UOverflowDistance_is_float: "binary32 (2147451 / 2 ^ 15) = Fin (2147451 / 2 ^ 15)"
  by (simp add: binary32_roundoff)

lemma kDepth16UOverflowDistance_mm:
  "fp_mult kDepth16UOverflowDistance (Fin 1000) = Fin (2147451 / 2 ^ 15 * 1000)"
  unfolding kDepth16UOverflowDistance_value
  by (rule fp_mult_float_1000 [OF kDepth16UOverflowDistance_is_float])

lemma depth_32F_to_16U_unfold:
  "depth_32F_to_16U v =
     static_cast_uint16 (fp_mult (std_min v kDepth16UOverflowDistance) (Fin 1000))"
  by (simp add: depth_32F_to_16U_def Let_def del: fp_mult.simps)

lemma depth_32F_to_16U_saturated:
  assumes "std_min v kDepth16UOverflowDistance = kDepth16UOverflowDistance"
  shows "depth_32F_to_16U v = Inr 65535"
  unfolding depth_32F_to_16U_unfold assms kDepth16UOverflowDistance_mm
  by (simp add: trunc_toward_zero_def)

lemma depth_32F_to_16U_Fin:
  assumes "- (1 / 1000) < x" and flt: "binary32 x = Fin x"
  shows "depth_32F_to_16U (Fin x) = Inr (word_of_int (spec_depth_mm x))"
proof (cases "2147451 / 2 ^ 15 < x")
  case True
  then have "65535 / 1000 \<le> x" by simp
  then have "spec_depth_mm x = 65535" by (rule spec_depth_mm_saturated)
  moreover have "std_min (Fin x) kDepth16UOverflowDistance = kDepth16UOverflowDistance"
    using True by (simp add: std_min_def kDepth16UOverflowDistance_value)
  then have "depth_32F_to_16U (Fin x) = Inr 65535"
    by (rule depth_32F_to_16U_saturated)
  ultimately show ?thesis by simp
next
  case False
  then have le: "x \<le> 2147451 / 2 ^ 15" by simp
  have dist: "std_min (Fin x) kDepth16UOverflowDistance = Fin x"
    using False by (simp add: std_min_def kDepth16UOverflowDistance_value)
  have eq: "trunc_toward_zero (x * 1000) = spec_depth_mm x"
  proof (cases "x \<le> 65535 / 1000")
    case True
    then show ?thesis by (simp add: spec_depth_mm_def min_def)
  next
    case False
    then have "65535 < x * 1000" "x * 1000 < 65536" using le by simp_all
    then have "\<lfloor>x * 1000\<rfloor> = 65535" by linarith
    moreover have "spec_depth_mm x = 65535"
      using False by (intro spec_depth_mm_saturated) simp
    ultimately show ?thesis using False by (simp add: trunc_toward_zero_def)
  qed
  from spec_depth_mm_range [OF assms(1)] show ?thesis
    unfolding depth_32F_to_16U_unfold dist fp_mult_float_1000 [OF flt]
    by (simp add: eq Let_def)
qed

lemma depth_32F_to_16U_PInf: "depth_32F_to_16U PInf = Inr 65535"
  by (rule depth_32F_to_16U_saturated) (simp add: std_min_def kDepth16UOverflowDistance_value)

lemma depth_32F_to_16U_ok:
  "is_float v \<Longrightarrow> depth_value_ok v \<Longrightarrow> depth_32F_to_16U v = Inr (quantized v)"
  by (cases v) (simp_all add: depth_32F_to_16U_Fin depth_32F_to_16U_PInf)

lemma uint_quantized_Fin: "- (1 / 1000) < x \<Longrightarrow> uint (quantized (Fin x)) = spec_depth_mm x"
  using spec_depth_mm_range [of x] by (simp add: uint_word_of_int take_bit_int_eq_self)

lemma depth_32F_to_16U_defined:
  assumes "depth_32F_to_16U v = Inr m" "is_float v"
  shows "depth_value_ok v"
proof (cases v)
  case (Fin x)
  show ?thesis
  proof (rule ccontr)
    assume "\<not> depth_value_ok v"
    with Fin have x: "x \<le> - (1 / 1000)" by simp
    then have "x * 1000 \<le> - 1" by simp
    then have c: "\<lceil>x * 1000\<rceil> \<le> - 1" by (simp add: ceiling_le_iff)
    have dist: "std_min (Fin x) kDepth16UOverflowDistance = Fin x"
      using x by (simp add: std_min_def kDepth16UOverflowDistance_value)
    from assms(2) Fin have flt: "binary32 x = Fin x" by simp
    have "depth_32F_to_16U (Fin x) = Inl UndefinedConversion"
      unfolding depth_32F_to_16U_unfold dist fp_mult_float_1000 [OF flt]
      using x c by (simp add: trunc_toward_zero_def Let_def)
    with assms(1) Fin show False by simp
  qed
next
  case NInf
  have "depth_32F_to_16U NInf = Inl UndefinedConversion"
    by (simp add: depth_32F_to_16U_unfold std_min_def kDepth16UOverflowDistance_value)
  with assms(1) NInf show ?thesis by simp
next
  case NaN
  have "depth_32F_to_16U NaN = Inl UndefinedConversion"
    by (simp add: depth_32F_to_16U_unfold std_min_def kDepth16UOverflowDistance_value)
  with assms(1) NaN show ?thesis by simp
qed simp

subsection \<open>The loops\<close>

lemma convert_pixel_ok:
  assumes "in_image d32 w h" "in_image d16 w h"
    and "is_float (pixels d32 (w, h))" "depth_value_ok (pixels d32 (w, h))"
  shows "convert_pixel d32 w h d16 =
           Inr (d16\<lparr>pixels := (pixels d16)((w, h) := quantized (pixels d32 (w, h)))\<rparr>)"
  using assms by (simp add: convert_pixel_def image_at_def image_set_def depth_32F_to_16U_ok)

lemma in_image_pixels_update [simp]: "in_image (img\<lparr>pixels := f\<rparr>) x y = in_image img x y"
  by (simp add: in_image_def)

lemma convert_column_ok:
  assumes "\<forall>h\<in>set hs. in_image d32 w h \<and> in_image d16 w h
             \<and> is_float (pixels d32 (w, h)) \<and> depth_value_ok (pixels d32 (w, h))"
  shows "convert_column d32 w hs d16 =
           Inr (d16\<lparr>pixels := (\<lambda>p. if fst p = w \<and> snd p \<in> set hs
                                     then quantized (pixels d32 p) else pixels d16 p)\<rparr>)"
  using assms
proof (induction hs arbitrary: d16)
  case Nil
  then show ?case by simp
next
  case (Cons h hs)
  let ?d = "d16\<lparr>pixels := (pixels d16)((w, h) := quantized (pixels d32 (w, h)))\<rparr>"
  have step: "convert_pixel d32 w h d16 = Inr ?d"
    using Cons.prems by (intro convert_pixel_ok) simp_all
  have "\<forall>k\<in>set hs. in_image d32 w k \<and> in_image ?d w k
          \<and> is_float (pixels d32 (w, k)) \<and> depth_value_ok (pixels d32 (w, k))"
    using Cons.prems by simp
  from Cons.IH [OF this]
  have "convert_column d32 w hs ?d =
          Inr (?d\<lparr>pixels := (\<lambda>p. if fst p = w \<and> snd p \<in> set hs
                                   then quantized (pixels d32 p) else pixels ?d p)\<rparr>)" .
  moreover have "(\<lambda>p. if fst p = w \<and> snd p \<in> set hs
                       then quantized (pixels d32 p) else pixels ?d p)
      = (\<lambda>p. if fst p = w \<and> snd p \<in> set (h # hs)
              then quantized (pixels d32 p) else pixels d16 p)"
    by (auto simp: fun_eq_iff)
  ultimately show ?case
    by (simp add: step)
qed

lemma convert_columns_ok:
  assumes "\<forall>w\<in>set ws. \<forall>h\<in>set [0..img_height d16 - 1].
             in_image d32 w h \<and> in_image d16 w h
             \<and> is_float (pixels d32 (w, h)) \<and> depth_value_ok (pixels d32 (w, h))"
  shows "convert_columns d32 ws d16 =
           Inr (d16\<lparr>pixels := (\<lambda>p. if fst p \<in> set ws \<and> snd p \<in> set [0..img_height d16 - 1]
                                     then quantized (pixels d32 p) else pixels d16 p)\<rparr>)"
  using assms
proof (induction ws arbitrary: d16)
  case Nil
  then show ?case by simp
next
  case (Cons w ws)
  define hs where "hs = [0..img_height d16 - 1]"
  let ?d = "d16\<lparr>pixels := (\<lambda>p. if fst p = w \<and> snd p \<in> set hs
                                  then quantized (pixels d32 p) else pixels d16 p)\<rparr>"
  have "\<forall>h\<in>set hs. in_image d32 w h \<and> in_image d16 w h
             \<and> is_float (pixels d32 (w, h)) \<and> depth_value_ok (pixels d32 (w, h))"
    using Cons.prems unfolding hs_def by simp
  then have col: "convert_column d32 w hs d16 = Inr ?d"
    by (rule convert_column_ok)
  have hd: "[0..img_height ?d - 1] = hs"
    by (simp add: hs_def)
  have "\<forall>v\<in>set ws. \<forall>h\<in>set [0..img_height ?d - 1].
          in_image d32 v h \<and> in_image ?d v h
          \<and> is_float (pixels d32 (v, h)) \<and> depth_value_ok (pixels d32 (v, h))"
    unfolding hd using Cons.prems unfolding hs_def [symmetric] by simp
  from Cons.IH [OF this]
  have rest: "convert_columns d32 ws ?d =
          Inr (?d\<lparr>pixels := (\<lambda>p. if fst p \<in> set ws \<and> snd p \<in> set hs
                                   then quantized (pixels d32 p) else pixels ?d p)\<rparr>)"
    unfolding hd .
  have "(\<lambda>p. if fst p \<in> set ws \<and> snd p \<in> set hs
              then quantized (pixels d32 p) else pixels ?d p)
      = (\<lambda>p. if fst p \<in> set (w # ws) \<and> snd p \<in> set hs
              then quantized (pixels d32 p) else pixels d16 p)"
    by (auto simp: fun_eq_iff)
  then have "convert_columns d32 ws ?d =
          Inr (d16\<lparr>pixels := (\<lambda>p. if fst p \<in> set (w # ws) \<and> snd p \<in> set hs
                                   then quantized (pixels d32 p) else pixels d16 p)\<rparr>)"
    using rest by simp
  then show ?case
    using col unfolding hs_def by simp
qed

lemma ConvertDepth32FTo16U_ok:
  assumes "img_width d16 = img_width d32" "img_height d16 = img_height d32"
    and "\<forall>x y. in_image d32 x y \<longrightarrow>
           is_float (pixels d32 (x, y)) \<and> depth_value_ok (pixels d32 (x, y))"
  shows "ConvertDepth32FTo16U d32 d16 =
           Inr (d16\<lparr>pixels := (\<lambda>p. if in_image d32 (fst p) (snd p)
                                     then quantized (pixels d32 p) else pixels d16 p)\<rparr>)"
proof -
  have rng: "(x \<in> set [0..img_width d16 - 1] \<and> y \<in> set [0..img_height d16 - 1]) = in_image d32 x y"
    for x y
    using assms(1,2) by (auto simp: in_image_def)
  have "\<forall>w\<in>set [0..img_width d16 - 1]. \<forall>h\<in>set [0..img_height d16 - 1].
          in_image d32 w h \<and> in_image d16 w h
             \<and> is_float (pixels d32 (w, h)) \<and> depth_value_ok (pixels d32 (w, h))"
    using assms by (simp add: in_image_def)
  from convert_columns_ok [OF this] show ?thesis
    unfolding ConvertDepth32FTo16U_def rng .
qed

text \<open>
  Claim C3. Let the float depth image hold, at every pixel, a float on which the
  conversion is defined (greater than -0.001, infinity included), and let the 16-bit image
  have been allocated with the same dimensions. Then the depth quantizer returns a 16-bit
  image of these dimensions in which every pixel is \<open>min(value, (2^16 - 1) / 1000) * 1000\<close>
  truncated, and a pixel whose value is at least \<open>(2^16 - 1) / 1000\<close> becomes 65535:
  the conversion of such a value is neither an error nor a wrapped number.
\<close>

theorem ConvertDepth32FTo16U_quantizes:
  assumes "img_width d16 = img_width d32" "img_height d16 = img_height d32"
    and "\<forall>x y. in_image d32 x y \<longrightarrow>
           is_float (pixels d32 (x, y)) \<and> depth_value_ok (pixels d32 (x, y))"
  shows "\<exists>out. ConvertDepth32FTo16U d32 d16 = Inr out
           \<and> img_width out = img_width d32 \<and> img_height out = img_height d32
           \<and> (\<forall>x y r. in_image d32 x y \<and> pixels d32 (x, y) = Fin r \<longrightarrow>
                 uint (pixels out (x, y)) = spec_depth_mm r
                 \<and> (65535 / 1000 \<le> r \<longrightarrow> pixels out (x, y) = 65535))
           \<and> (\<forall>x y. in_image d32 x y \<and> pixels d32 (x, y) = PInf \<longrightarrow>
                 pixels out (x, y) = 65535)
           \<and> (\<forall>r. is_float (Fin r) \<and> 65535 / 1000 \<le> r \<longrightarrow>
                 depth_32F_to_16U (Fin r) = Inr 65535)"
proof -
  let ?out = "d16\<lparr>pixels := (\<lambda>p. if in_image d32 (fst p) (snd p)
                                   then quantized (pixels d32 p) else pixels d16 p)\<rparr>"
  have res: "ConvertDepth32FTo16U d32 d16 = Inr ?out"
    using assms by (rule ConvertDepth32FTo16U_ok)
  have fin: "uint (pixels ?out (x, y)) = spec_depth_mm r
      \<and> (65535 / 1000 \<le> r \<longrightarrow> pixels ?out (x, y) = 65535)"
    if "in_image d32 x y" "pixels d32 (x, y) = Fin r" for x y r
  proof -
    from assms(3) that have "- (1 / 1000) < r" by fastforce
    then have "uint (quantized (Fin r)) = spec_depth_mm r"
      by (rule uint_quantized_Fin)
    moreover have "quantized (Fin r) = 65535" if "65535 / 1000 \<le> r"
      using spec_depth_mm_saturated [OF that] by simp
    ultimately show ?thesis using that by simp
  qed
  have inf: "pixels ?out (x, y) = 65535"
    if "in_image d32 x y" "pixels d32 (x, y) = PInf" for x y
    using that by simp
  have sat: "depth_32F_to_16U (Fin r) = Inr 65535"
    if "is_float (Fin r) \<and> 65535 / 1000 \<le> r" for r
  proof -
    from that have "- (1 / 1000) < r" "binary32 r = Fin r" "65535 / 1000 \<le> r" by simp_all
    then show ?thesis
      using spec_depth_mm_saturated [of r] by (simp add: depth_32F_to_16U_Fin)
  qed
  show ?thesis
  proof (intro exI conjI allI impI)
    show "ConvertDepth32FTo16U d32 d16 = Inr ?out" by (rule res)
    show "img_width ?out = img_width d32" by (simp add: assms(1))
    show "img_height ?out = img_height d32" by (simp add: assms(2))
  next
    fix x y r assume "in_image d32 x y \<and> pixels d32 (x, y) = Fin r"
    then show "uint (pixels ?out (x, y)) = spec_depth_mm r" using fin by blast
  next
    fix x y r assume "in_image d32 x y \<and> pixels d32 (x, y) = Fin r" "65535 / 1000 \<le> r"
    then show "pixels ?out (x, y) = 65535" using fin by blast
  next
    fix x y assume "in_image d32 x y \<and> pixels d32 (x, y) = PInf"
    then show "pixels ?out (x, y) = 65535" using inf by blast
  next
    fix r :: real assume "is_float (Fin r) \<and> 65535 / 1000 \<le> r"
    then show "depth_32F_to_16U (Fin r) = Inr 65535" by (rule sat)
  qed
qed

theorem ConvertDepth32FTo16U_quantizes_witness:
  "\<exists>out. ConvertDepth32FTo16U
            \<lparr>img_width = 2, img_height = 1,
             pixels = (\<lambda>p. if fst p = 0 then Fin (3 / 2) else if fst p = 1 then PInf else NaN)\<rparr>
            (new_image 2 1 0) = Inr out
         \<and> img_width out = 2 \<and> img_height out = 1
         \<and> uint (pixels out (0, 0)) = 1500 \<and> pixels out (1, 0) = 65535"
proof -
  let ?d32 = "\<lparr>img_width = 2, img_height = 1,
      pixels = (\<lambda>p. if fst p = (0::int) then Fin (3 / 2) else if fst p = 1 then PInf else NaN)\<rparr>"
  have h1: "img_width (new_image 2 1 (0::16 word)) = img_width ?d32"
    and h2: "img_height (new_image 2 1 (0::16 word)) = img_height ?d32"
    by (simp_all add: new_image_def)
  have f: "binary32 (3 / 2) = Fin (3 / 2)"
    by (simp add: binary32_roundoff)
  have h3: "\<forall>x y. in_image ?d32 x y \<longrightarrow>
      is_float (pixels ?d32 (x, y)) \<and> depth_value_ok (pixels ?d32 (x, y))"
    using f by (auto simp: in_image_def)
  have i0: "in_image ?d32 0 0 \<and> pixels ?d32 (0, 0) = Fin (3 / 2)"
    and i1: "in_image ?d32 1 0 \<and> pixels ?d32 (1, 0) = PInf"
    by (simp_all add: in_image_def)
  have mm: "spec_depth_mm (3 / 2) = 1500"
    by (simp add: spec_depth_mm_def trunc_toward_zero_def)
  from ConvertDepth32FTo16U_quantizes [OF h1 h2 h3] obtain out where
    out: "ConvertDepth32FTo16U ?d32 (new_image 2 1 0) = Inr out"
      "img_width out = img_width ?d32" "img_height out = img_height ?d32"
      and fin: "\<forall>x y r. in_image ?d32 x y \<and> pixels ?d32 (x, y) = Fin r \<longrightarrow>
                 uint (pixels out (x, y)) = spec_depth_mm r
                 \<and> (65535 / 1000 \<le> r \<longrightarrow> pixels out (x, y) = 65535)"
      and inf: "\<forall>x y. in_image ?d32 x y \<and> pixels ?d32 (x, y) = PInf \<longrightarrow>
                 pixels out (x, y) = 65535"
    by (elim exE conjE)
  from fin i0 have "uint (pixels out (0, 0)) = spec_depth_mm (3 / 2)" by blast
  moreover from inf i1 have "pixels out (1, 0) = 65535" by blast
  ultimately show ?thesis using out mm by simp
qed

subsection \<open>Monotonicity and re-quantization\<close>

lemma trunc_toward_zero_mono: "a \<le> b \<Longrightarrow> trunc_toward_zero a \<le> trunc_toward_zero b"
  unfolding trunc_toward_zero_def
  by (auto intro: floor_mono ceiling_mono) (smt (verit) ceiling_le_zero zero_le_floor)

lemma spec_depth_mm_mono: "a \<le> b \<Longrightarrow> spec_depth_mm a \<le> spec_depth_mm b"
  unfolding spec_depth_mm_def
  by (intro trunc_toward_zero_mono) (simp add: min_le_iff_disj)

lemma depth_32F_to_16U_mono:
  assumes "is_float a" "is_float b"
    and "depth_32F_to_16U a = Inr m" "depth_32F_to_16U b = Inr n" "fp_less a b"
  shows "m \<le> n"
proof -
  have oka: "depth_value_ok a" and okb: "depth_value_ok b"
    using assms(1-4) by (auto dest: depth_32F_to_16U_defined)
  have m: "m = quantized a" and n: "n = quantized b"
    using assms(3,4) depth_32F_to_16U_ok [OF assms(1) oka] depth_32F_to_16U_ok [OF assms(2) okb]
    by simp_all
  show ?thesis
  proof (cases b)
    case b: (Fin y)
    then obtain x where a: "a = Fin x" and "x < y"
      using assms(5) oka by (cases a) simp_all
    then have "spec_depth_mm x \<le> spec_depth_mm y"
      by (intro spec_depth_mm_mono) simp
    moreover have "uint m = spec_depth_mm x" "uint n = spec_depth_mm y"
      using oka okb a b m n by (simp_all add: uint_quantized_Fin del: quantized.simps)
    ultimately show ?thesis by (simp add: word_le_def)
  next
    case PInf
    then have "n = - 1" using n by simp
    then show ?thesis by simp
  qed (use okb in simp_all)
qed

lemma depth_32F_to_16U_requantize:
  assumes "0 \<le> x" "x \<le> 65535 / 1000" "binary32 x = Fin x"
  shows "\<exists>n. depth_32F_to_16U (Fin x) = Inr n
           \<and> (\<forall>y. binary32 y = Fin y
                   \<and> real (unat n) / 1000 \<le> y \<and> y < (real (unat n) + 1) / 1000
                 \<longrightarrow> depth_32F_to_16U (Fin y) = Inr n)"
proof -
  have x: "- (1 / 1000) < x" using assms(1) by simp
  let ?n = "word_of_int (spec_depth_mm x) :: 16 word"
  have u: "uint ?n = spec_depth_mm x"
    using uint_quantized_Fin [OF x] by simp
  have rng: "0 \<le> spec_depth_mm x" "spec_depth_mm x \<le> 65535"
    using spec_depth_mm_range [OF x] by simp_all
  have un: "real (unat ?n) = real_of_int (spec_depth_mm x)"
    using u rng by (simp add: unat_eq_nat_uint)
  have "depth_32F_to_16U (Fin y) = Inr ?n"
    if f: "binary32 y = Fin y"
      and y: "real (unat ?n) / 1000 \<le> y" "y < (real (unat ?n) + 1) / 1000" for y
  proof -
    have y0: "0 \<le> y" using y(1) un rng(1)
      by (smt (verit) divide_nonneg_nonneg of_int_0_le_iff)
    have "spec_depth_mm y = spec_depth_mm x"
    proof (cases "spec_depth_mm x = 65535")
      case True
      then have "65535 / 1000 \<le> y" using y(1) un by simp
      then show ?thesis using True by (simp add: spec_depth_mm_saturated)
    next
      case False
      then have "spec_depth_mm x + 1 \<le> 65535" using rng by simp
      then have "real_of_int (spec_depth_mm x) + 1 \<le> 65535"
        by (metis of_int_le_iff of_int_add of_int_1 of_int_numeral)
      then have "y < 65535 / 1000" using y(2) un by simp
      then have "min y ((2 ^ 16 - 1) / 1000) = y" by simp
      moreover have "\<lfloor>y * 1000\<rfloor> = spec_depth_mm x"
        using y un by (intro floor_unique) (simp_all add: field_simps)
      ultimately show ?thesis using y0
        by (simp add: spec_depth_mm_def trunc_toward_zero_def)
    qed
    moreover have "- (1 / 1000) < y" using y0 by simp
    ultimately show ?thesis using f by (simp add: depth_32F_to_16U_Fin)
  qed
  then show ?thesis
    using depth_32F_to_16U_Fin [OF x assms(3)] by blast
qed

lemma binary64_5_mm: "binary64 (5 / 1000) = Fin (5764607523034235 / 2 ^ 60)"
  by (simp add: binary64_def binary_round_def ilog2_def bitlen_def compute_floorlog
      pow2_def round_ties_even_def Let_def)

lemma spec_metres_of_mm_5: "spec_metres_of_mm 5 = Fin (5368709 / 2 ^ 30)"
  unfolding spec_metres_of_mm_def
  apply (simp add: binary64_5_mm [simplified])
  apply (simp add: binary32_roundoff)
  done

lemma depth_32F_to_16U_examples:
  "binary32 1 = Fin 1" "binary32 2 = Fin 2" "binary32 (3 / 512) = Fin (3 / 512)"
  "binary32 (11 / 2048) = Fin (11 / 2048)" "binary32 (5368709 / 2 ^ 30) = Fin (5368709 / 2 ^ 30)"
  "depth_32F_to_16U (Fin 1) = Inr 1000" "depth_32F_to_16U (Fin 2) = Inr 2000"
  "depth_32F_to_16U (Fin (3 / 512)) = Inr 5" "depth_32F_to_16U (Fin (11 / 2048)) = Inr 5"
  "depth_32F_to_16U (Fin (5368709 / 2 ^ 30)) = Inr 4"
proof -
  show f: "binary32 1 = Fin 1" "binary32 2 = Fin 2" "binary32 (3 / 512) = Fin (3 / 512)"
    "binary32 (11 / 2048) = Fin (11 / 2048)" "binary32 (5368709 / 2 ^ 30) = Fin (5368709 / 2 ^ 30)"
    by (simp_all add: binary32_roundoff)
  have mm: "spec_depth_mm 1 = 1000" "spec_depth_mm 2 = 2000" "spec_depth_mm (3 / 512) = 5"
    "spec_depth_mm (11 / 2048) = 5" "spec_depth_mm (5368709 / 2 ^ 30) = 4"
    by (simp_all add: spec_depth_mm_def trunc_toward_zero_def)
  show "depth_32F_to_16U (Fin 1) = Inr 1000"
    using depth_32F_to_16U_Fin [OF _ f(1)] mm(1) by simp
  show "depth_32F_to_16U (Fin 2) = Inr 2000"
    using depth_32F_to_16U_Fin [OF _ f(2)] mm(2) by simp
  show "depth_32F_to_16U (Fin (3 / 512)) = Inr 5"
    using depth_32F_to_16U_Fin [OF _ f(3)] mm(3) by simp
  show "depth_32F_to_16U (Fin (11 / 2048)) = Inr 5"
    using depth_32F_to_16U_Fin [OF _ f(4)] mm(4) by simp
  show "depth_32F_to_16U (Fin (5368709 / 2 ^ 30)) = Inr 4"
    using depth_32F_to_16U_Fin [OF _ f(5)] mm(5) by simp
qed

text \<open>
  Claim C9, as stated, fails. The float \<open>3 / 512\<close> lies in \<open>[0, (2^16 - 1) / 1000]\<close>
  and converts to 5 millimetres; 5 millimetres re-expressed in metres is the float nearest
  to 0.005, which is below 0.005, and converts to 4 millimetres.
\<close>

theorem requantize_counterexample:
  "is_float (Fin (3 / 512))
   \<and> (0::real) \<le> 3 / 512 \<and> (3 / 512 :: real) \<le> (2 ^ 16 - 1) / 1000
   \<and> depth_32F_to_16U (Fin (3 / 512)) = Inr 5
   \<and> spec_metres_of_mm 5 = Fin (5368709 / 2 ^ 30)
   \<and> depth_32F_to_16U (spec_metres_of_mm 5) = Inr 4"
  using depth_32F_to_16U_examples(3,8,10) by (simp add: spec_metres_of_mm_5)

text \<open>
  Claim C9, amended. Depth quantization is monotonic: of two floats that it converts, the
  larger never yields the smaller millimetre value. And for every float \<open>x\<close> in
  \<open>[0, (2^16 - 1) / 1000]\<close> that converts to \<open>n\<close> millimetres, every float \<open>y\<close> with
  \<open>n / 1000 \<le> y < (n + 1) / 1000\<close> converts to \<open>n\<close> again.
\<close>

theorem depth_quantizer_monotonic_requantize:
  "(is_float a \<and> is_float b
      \<and> depth_32F_to_16U a = Inr m \<and> depth_32F_to_16U b = Inr n \<and> fp_less a b \<longrightarrow> m \<le> n)
   \<and> (is_float (Fin x) \<and> 0 \<le> x \<and> x \<le> (2 ^ 16 - 1) / 1000 \<longrightarrow>
        (\<exists>k. depth_32F_to_16U (Fin x) = Inr k
           \<and> (\<forall>y. is_float (Fin y)
                   \<and> real (unat k) / 1000 \<le> y \<and> y < (real (unat k) + 1) / 1000
                 \<longrightarrow> depth_32F_to_16U (Fin y) = Inr k)))"
proof (intro conjI impI)
  assume "is_float a \<and> is_float b
      \<and> depth_32F_to_16U a = Inr m \<and> depth_32F_to_16U b = Inr n \<and> fp_less a b"
  then show "m \<le> n" using depth_32F_to_16U_mono by blast
next
  assume "is_float (Fin x) \<and> 0 \<le> x \<and> x \<le> (2 ^ 16 - 1) / 1000"
  then have "0 \<le> x" "x \<le> 65535 / 1000" "binary32 x = Fin x" by simp_all
  from depth_32F_to_16U_requantize [OF this]
  show "\<exists>k. depth_32F_to_16U (Fin x) = Inr k
           \<and> (\<forall>y. is_float (Fin y)
                   \<and> real (unat k) / 1000 \<le> y \<and> y < (real (unat k) + 1) / 1000
                 \<longrightarrow> depth_32F_to_16U (Fin y) = Inr k)"
    by simp
qed

theorem depth_quantizer_monotonic_requantize_witness:
  "depth_32F_to_16U (Fin 1) = Inr 1000 \<and> depth_32F_to_16U (Fin 2) = Inr 2000
   \<and> fp_less (Fin 1) (Fin 2) \<and> (1000 :: 16 word) \<le> 2000
   \<and> depth_32F_to_16U (Fin (3 / 512)) = Inr 5
   \<and> depth_32F_to_16U (Fin (11 / 2048)) = Inr 5"
proof -
  note e = depth_32F_to_16U_examples
  have fl: "is_float (Fin 1) \<and> is_float (Fin 2)" "is_float (Fin (3 / 512))"
    "is_float (Fin (11 / 2048))"
    using e(1-4) by simp_all
  have rng: "(0::real) \<le> 3 / 512 \<and> (3 / 512 :: real) \<le> (2 ^ 16 - 1) / 1000" by simp
  note inst = depth_quantizer_monotonic_requantize
    [of "Fin 1" "Fin 2" "1000" "2000" "3 / 512"]
  from inst fl(1) e(6,7) have le: "(1000 :: 16 word) \<le> 2000" by simp
  from inst fl(2) rng obtain k where k: "depth_32F_to_16U (Fin (3 / 512)) = Inr k"
    and again: "\<forall>y. is_float (Fin y)
                   \<and> real (unat k) / 1000 \<le> y \<and> y < (real (unat k) + 1) / 1000
                 \<longrightarrow> depth_32F_to_16U (Fin y) = Inr k"
    by blast
  from k e(8) have k5: "k = 5" by simp
  have "real (unat (5 :: 16 word)) / 1000 \<le> 11 / 2048
      \<and> (11 / 2048 :: real) < (real (unat (5 :: 16 word)) + 1) / 1000"
    by simp
  with again k5 fl(3) have "depth_32F_to_16U (Fin (11 / 2048)) = Inr 5" by blast
  with e(6,7,8) le show ?thesis by simp
qed

section \<open>Properties of the constructor\<close>

lemma RgbdSensor_ctor_fields:
  "parent_frame_id (fst (RgbdSensor_ctor p X cc dc)) = p"
  "X_PB (fst (RgbdSensor_ctor p X cc dc)) = X"
  "color_camera (fst (RgbdSensor_ctor p X cc dc)) = cc"
  "depth_camera (fst (RgbdSensor_ctor p X cc dc)) = dc"
  "model_value (depth_image_32F_port (fst (RgbdSensor_ctor p X cc dc))) =
     new_image (width (intrinsics (depth_core dc))) (height (intrinsics (depth_core dc))) (Fin 0)"
  "model_value (depth_image_16U_port (fst (RgbdSensor_ctor p X cc dc))) =
     new_image (width (intrinsics (depth_core dc))) (height (intrinsics (depth_core dc))) 0"
  "port_name (color_image_port (fst (RgbdSensor_ctor p X cc dc))) = ''color_image''"
  "port_name (depth_image_32F_port (fst (RgbdSensor_ctor p X cc dc))) = ''depth_image_32f''"
  "port_name (depth_image_16U_port (fst (RgbdSensor_ctor p X cc dc))) = ''depth_image_16u''"
  "port_name (label_image_port (fst (RgbdSensor_ctor p X cc dc))) = ''label_image''"
  "port_name (X_WB_pose_port (fst (RgbdSensor_ctor p X cc dc))) = ''X_WB''"
  by (simp_all add: RgbdSensor_ctor_def Let_def)

lemma RgbdSensor_ctor_log:
  "snd (RgbdSensor_ctor p X cc dc) =
     (if spec_simple_intrinsics (intrinsics (color_core cc))
         \<and> spec_simple_intrinsics (intrinsics (depth_core dc))
      then []
      else [ComplexCameraWarning
              (focal_x (intrinsics (color_core cc))) (focal_y (intrinsics (color_core cc)))
              (center_x (intrinsics (color_core cc))) (center_y (intrinsics (color_core cc)))
              (focal_x (intrinsics (depth_core dc))) (focal_y (intrinsics (depth_core dc)))
              (center_x (intrinsics (depth_core dc))) (center_y (intrinsics (depth_core dc)))])
     @ (if fp_less kMaxValidDepth16UInM (max_depth (depth_range dc))
        then [MaxDepthWarning (max_depth (depth_range dc)) kMaxValidDepth16UInM]
        else [])"
  unfolding RgbdSensor_ctor_def Let_def spec_simple_intrinsics_def snd_conv
  by (rule arg_cong2 [where f = append]) auto

text \<open>
  Claim C5. When the intrinsics of the color camera and of the depth camera both satisfy
  \<open>focal_x = focal_y\<close>, \<open>center_x = width / 2 + 0.5\<close> and \<open>center_y = height / 2 + 0.5\<close>, the
  constructor logs no intrinsics warning. When either camera violates one of the three
  conditions, it logs exactly one, which lists the focal lengths and principal points of
  both cameras. Either way it returns the sensor, holding the parent frame, the transform
  and the two cameras it was given.
\<close>

theorem RgbdSensor_ctor_intrinsics_warning:
  "(spec_simple_intrinsics (intrinsics (color_core cc))
      \<and> spec_simple_intrinsics (intrinsics (depth_core dc))
      \<longrightarrow> filter is_complex_camera_warning (snd (RgbdSensor_ctor p X cc dc)) = [])
   \<and> (\<not> (spec_simple_intrinsics (intrinsics (color_core cc))
          \<and> spec_simple_intrinsics (intrinsics (depth_core dc)))
      \<longrightarrow> filter is_complex_camera_warning (snd (RgbdSensor_ctor p X cc dc)) =
            [ComplexCameraWarning
               (focal_x (intrinsics (color_core cc))) (focal_y (intrinsics (color_core cc)))
               (center_x (intrinsics (color_core cc))) (center_y (intrinsics (color_core cc)))
               (focal_x (intrinsics (depth_core dc))) (focal_y (intrinsics (depth_core dc)))
               (center_x (intrinsics (depth_core dc))) (center_y (intrinsics (depth_core dc)))])
   \<and> parent_frame_id (fst (RgbdSensor_ctor p X cc dc)) = p
   \<and> X_PB (fst (RgbdSensor_ctor p X cc dc)) = X
   \<and> color_camera (fst (RgbdSensor_ctor p X cc dc)) = cc
   \<and> depth_camera (fst (RgbdSensor_ctor p X cc dc)) = dc"
  by (simp add: RgbdSensor_ctor_log RgbdSensor_ctor_fields)

lemma example_simple: "spec_simple_intrinsics example_intrinsics"
  by (simp add: spec_simple_intrinsics_def example_intrinsics_def)

lemma example_not_simple: "\<not> spec_simple_intrinsics (example_intrinsics\<lparr>center_x := 320\<rparr>)"
  by (simp add: spec_simple_intrinsics_def example_intrinsics_def)

theorem RgbdSensor_ctor_intrinsics_warning_witness:
  "filter is_complex_camera_warning
     (snd (RgbdSensor_ctor 0 (translation_transform (0, 1, 0)) example_color_camera
             (example_depth_camera (Fin 5)))) = []
   \<and> filter is_complex_camera_warning
       (snd (RgbdSensor_ctor 0 (translation_transform (0, 1, 0))
               \<lparr>color_core = (example_core (translation_transform (0, 0, 1)))
                    \<lparr>intrinsics := example_intrinsics\<lparr>center_x := 320\<rparr>\<rparr>,
                show_window = False\<rparr>
               (example_depth_camera (Fin 5)))) =
       [ComplexCameraWarning 500 500 320 (481 / 2) 500 500 (641 / 2) (481 / 2)]"
proof -
  have a: "spec_simple_intrinsics (intrinsics (color_core example_color_camera))
      \<and> spec_simple_intrinsics (intrinsics (depth_core (example_depth_camera (Fin 5))))"
    using example_simple
    by (simp add: example_color_camera_def example_depth_camera_def example_core_def)
  let ?cc = "\<lparr>color_core = (example_core (translation_transform (0, 0, 1)))
                    \<lparr>intrinsics := example_intrinsics\<lparr>center_x := 320\<rparr>\<rparr>,
                show_window = False\<rparr>"
  have b: "\<not> (spec_simple_intrinsics (intrinsics (color_core ?cc))
      \<and> spec_simple_intrinsics (intrinsics (depth_core (example_depth_camera (Fin 5)))))"
    using example_not_simple by simp
  from a RgbdSensor_ctor_intrinsics_warning
    [of example_color_camera "example_depth_camera (Fin 5)" 0 "translation_transform (0, 1, 0)"]
  have 1: "filter is_complex_camera_warning
     (snd (RgbdSensor_ctor 0 (translation_transform (0, 1, 0)) example_color_camera
             (example_depth_camera (Fin 5)))) = []"
    by blast
  from b RgbdSensor_ctor_intrinsics_warning
    [of ?cc "example_depth_camera (Fin 5)" 0 "translation_transform (0, 1, 0)"]
  have 2: "filter is_complex_camera_warning
     (snd (RgbdSensor_ctor 0 (translation_transform (0, 1, 0)) ?cc
             (example_depth_camera (Fin 5)))) =
       [ComplexCameraWarning
               (focal_x (intrinsics (color_core ?cc))) (focal_y (intrinsics (color_core ?cc)))
               (center_x (intrinsics (color_core ?cc))) (center_y (intrinsics (color_core ?cc)))
               (focal_x (intrinsics (depth_core (example_depth_camera (Fin 5)))))
               (focal_y (intrinsics (depth_core (example_depth_camera (Fin 5)))))
               (center_x (intrinsics (depth_core (example_depth_camera (Fin 5)))))
               (center_y (intrinsics (depth_core (example_depth_camera (Fin 5)))))]"
    by blast
  have 3: "[ComplexCameraWarning
               (focal_x (intrinsics (color_core ?cc))) (focal_y (intrinsics (color_core ?cc)))
               (center_x (intrinsics (color_core ?cc))) (center_y (intrinsics (color_core ?cc)))
               (focal_x (intrinsics (depth_core (example_depth_camera (Fin 5)))))
               (focal_y (intrinsics (depth_core (example_depth_camera (Fin 5)))))
               (center_x (intrinsics (depth_core (example_depth_camera (Fin 5)))))
               (center_y (intrinsics (depth_core (example_depth_camera (Fin 5)))))]
     = [ComplexCameraWarning 500 500 320 (481 / 2) 500 500 (641 / 2) (481 / 2)]"
    by (simp add: example_depth_camera_def example_core_def example_intrinsics_def)
  from 1 2 3 show ?thesis by simp
qed

lemma binary64_below_limit: "binary64 (65533997 / 1000000) = Fin (144110783432275 / 2 ^ 41)"
  by (simp add: binary64_def binary_round_def ilog2_def bitlen_def compute_floorlog
      pow2_def round_ties_even_def Let_def)

text \<open>
  Claim C6 says that the constructor warns exactly when \<open>max_depth\<close> exceeds
  \<open>(2^16 - 2) / 1000 = 65.534\<close>. The limit of the source is a \<^verbatim>\<open>float\<close>, and the float
  nearest to 65.534 is \<open>1073709 / 2^14 = 65.53399658203125\<close>: the constructor warns exactly
  when \<open>max_depth\<close> exceeds that. For \<open>max_depth = 65.533997\<close>, which is below 65.534, it
  logs the warning, and so it does for the \<^verbatim>\<open>double\<close> 65.534, the limit itself.
\<close>

theorem RgbdSensor_ctor_max_depth_warning_below_limit:
  "(filter is_max_depth_warning (snd (RgbdSensor_ctor p X cc dc)) \<noteq> []
      \<longleftrightarrow> fp_less (Fin (1073709 / 2 ^ 14)) (max_depth (depth_range dc)))
   \<and> (max_depth (depth_range dc) = binary64 (65533997 / 1000000) \<longrightarrow>
        fp_less (max_depth (depth_range dc)) (Fin ((2 ^ 16 - 2) / 1000))
        \<and> filter is_max_depth_warning (snd (RgbdSensor_ctor p X cc dc)) =
            [MaxDepthWarning (max_depth (depth_range dc)) kMaxValidDepth16UInM])
   \<and> (max_depth (depth_range dc) = binary64 ((2 ^ 16 - 2) / 1000) \<longrightarrow>
        filter is_max_depth_warning (snd (RgbdSensor_ctor p X cc dc)) =
            [MaxDepthWarning (max_depth (depth_range dc)) kMaxValidDepth16UInM])"
proof -
  have limit: "binary64 ((2 ^ 16 - 2) / 1000) = Fin (4611545280939033 / 2 ^ 46)"
    using binary64_65534 by simp
  show ?thesis
    unfolding limit
    by (simp add: RgbdSensor_ctor_log kMaxValidDepth16UInM_value binary64_below_limit)
qed

theorem RgbdSensor_ctor_max_depth_warning_below_limit_witness:
  "fp_less (binary64 (65533997 / 1000000)) (Fin ((2 ^ 16 - 2) / 1000))
   \<and> filter is_max_depth_warning
       (snd (RgbdSensor_ctor 0 (translation_transform (0, 1, 0)) example_color_camera
               (example_depth_camera (binary64 (65533997 / 1000000))))) =
       [MaxDepthWarning (Fin (144110783432275 / 2 ^ 41)) (Fin (1073709 / 2 ^ 14))]"
proof -
  have "max_depth (depth_range (example_depth_camera (binary64 (65533997 / 1000000))))
      = binary64 (65533997 / 1000000)"
    by (simp add: example_depth_camera_def)
  with RgbdSensor_ctor_max_depth_warning_below_limit
    [of 0 "translation_transform (0, 1, 0)" example_color_camera
        "example_depth_camera (binary64 (65533997 / 1000000))"]
  show ?thesis
    by (simp add: binary64_below_limit kMaxValidDepth16UInM_value)
qed

section \<open>Properties of the output computations\<close>

text \<open>
  Claim C1, amended. With the query input connected, the color image computation
  evaluates the input port and then calls the color-render operation once, with the
  camera properties (width, height, vertical field of view and renderer name of the color
  camera), the parent frame id, the pose \<open>X_PB\<close> composed with the color sensor-body offset,
  and the show-window flag; its result is the result of that call. The pose is relative to
  the parent frame: the parent's world pose is not looked up. When the parent frame is the
  world frame, \<open>X_PB\<close> is the body's world pose that \<^verbatim>\<open>ComputeBodyWorldPose\<close> returns.
\<close>

theorem CalcColorImage_render_call:
  "(query_object_input ctx = Some query_object \<longrightarrow>
      CalcColorImage s ctx color_image =
        ([EvalQueryObjectPort,
          CallRenderColorImage
            \<lparr>props_width = width (intrinsics (color_core (color_camera s))),
             props_height = height (intrinsics (color_core (color_camera s))),
             props_fov_y = fov_y (intrinsics (color_core (color_camera s))),
             props_renderer_name = renderer_name (color_core (color_camera s))\<rparr>
            (parent_frame_id s)
            (rt_mult (X_PB s) (sensor_pose_in_camera_body (color_core (color_camera s))))
            (show_window (color_camera s))],
         RenderColorImage query_object
            \<lparr>props_width = width (intrinsics (color_core (color_camera s))),
             props_height = height (intrinsics (color_core (color_camera s))),
             props_fov_y = fov_y (intrinsics (color_core (color_camera s))),
             props_renderer_name = renderer_name (color_core (color_camera s))\<rparr>
            (parent_frame_id s)
            (rt_mult (X_PB s) (sensor_pose_in_camera_body (color_core (color_camera s))))
            (show_window (color_camera s)) color_image))
   \<and> (parent_frame_id s = world_frame_id \<longrightarrow>
        ComputeBodyWorldPose world_frame_id s ctx = ([], Inr (X_PB s)))"
  by (simp add: CalcColorImage_def get_query_object_def ComputeBodyWorldPose_def Let_def)

lemma rt_mult_translations:
  "rt_mult (translation_transform (a, b, c)) (translation_transform (x, y, z))
     = translation_transform (a + x, b + y, c + z)"
  by (simp add: rt_mult_def translation_transform_def identity_matrix_def)

lemma example_sensor_fields:
  "parent_frame_id (example_sensor p) = p"
  "X_PB (example_sensor p) = translation_transform (0, 1, 0)"
  "color_camera (example_sensor p) = example_color_camera"
  "depth_camera (example_sensor p) = example_depth_camera (Fin 5)"
  by (simp_all add: example_sensor_def RgbdSensor_ctor_fields)

text \<open>
  Claim C1, as stated, fails. The example sensor sits at \<open>(0, 1, 0)\<close> in frame 1, whose
  world pose is the translation \<open>(1, 0, 0)\<close>, and its color camera at \<open>(0, 0, 1)\<close> in the
  body. The body's world pose composed with the offset is the translation \<open>(1, 1, 1)\<close>;
  the pose handed to the color-render operation is \<open>(0, 1, 1)\<close>.
\<close>

theorem CalcColorImage_world_pose_counterexample:
  "color_render_poses
     (fst (CalcColorImage (example_sensor 1)
             \<lparr>query_object_input = Some (stub_query_object (translation_transform (1, 0, 0)) (Fin 5))\<rparr>
             (new_image 640 480 (0, 0, 0, 0))))
     = [translation_transform (0, 1, 1)]
   \<and> snd (ComputeBodyWorldPose 0 (example_sensor 1)
             \<lparr>query_object_input = Some (stub_query_object (translation_transform (1, 0, 0)) (Fin 5))\<rparr>)
     = Inr (translation_transform (1, 1, 0))
   \<and> rt_mult (translation_transform (1, 1, 0))
        (sensor_pose_in_camera_body (color_core (color_camera (example_sensor 1))))
     = translation_transform (1, 1, 1)
   \<and> translation_transform (1, 1, 1) \<noteq> translation_transform (0, 1, 1)"
  by (simp add: CalcColorImage_def ComputeBodyWorldPose_def get_query_object_def Let_def
      example_sensor_fields example_color_camera_def example_core_def stub_query_object_def
      rt_mult_translations)
    (simp add: translation_transform_def)

theorem CalcColorImage_render_call_witness:
  "CalcColorImage (example_sensor 0)
     \<lparr>query_object_input = Some (stub_query_object (translation_transform (1, 0, 0)) (Fin 5))\<rparr>
     (new_image 640 480 (0, 0, 0, 0))
   = ([EvalQueryObjectPort,
       CallRenderColorImage
         \<lparr>props_width = 640, props_height = 480, props_fov_y = 4 / 5,
          props_renderer_name = ''renderer''\<rparr>
         0 (translation_transform (0, 1, 1)) False],
      Inr (new_image 640 480 (0, 0, 0, 0)))
   \<and> ComputeBodyWorldPose 0 (example_sensor 0)
        \<lparr>query_object_input = Some (stub_query_object (translation_transform (1, 0, 0)) (Fin 5))\<rparr>
      = ([], Inr (translation_transform (0, 1, 0)))"
proof -
  let ?ctx = "\<lparr>query_object_input = Some (stub_query_object (translation_transform (1, 0, 0)) (Fin 5))\<rparr>"
  have c: "query_object_input ?ctx = Some (stub_query_object (translation_transform (1, 0, 0)) (Fin 5))"
    by simp
  have w: "parent_frame_id (example_sensor 0) = 0"
    by (simp add: example_sensor_fields)
  from CalcColorImage_render_call
    [of ?ctx "stub_query_object (translation_transform (1, 0, 0)) (Fin 5)" "example_sensor 0"
        "new_image 640 480 (0, 0, 0, 0)" 0] c w
  show ?thesis
    by (simp add: example_sensor_fields example_color_camera_def example_core_def
        example_intrinsics_def stub_query_object_def rt_mult_translations)
qed

text \<open>
  Claim C2. When the parent frame is the world frame, the world-pose output is \<open>X_PB\<close>,
  and the computation neither evaluates the input port nor calls the query object. For any
  other parent frame, with the query input connected and the frame known to the geometry,
  it is the parent's world pose composed with \<open>X_PB\<close>. The output holds the translation and
  the quaternion that \<^verbatim>\<open>ToQuaternion\<close> returns for the rotation, a unit quaternion whenever
  \<^verbatim>\<open>ToQuaternion\<close> returns unit quaternions.
\<close>

theorem CalcX_WB_world_pose:
  "(parent_frame_id s = world_frame_id \<longrightarrow>
      CalcX_WB world_frame_id ToQuaternion s ctx pose_vector =
        ([], Inr \<lparr>pv_translation = translation (X_PB s),
                  pv_rotation = ToQuaternion (rotation (X_PB s))\<rparr>))
   \<and> (parent_frame_id s \<noteq> world_frame_id
        \<and> query_object_input ctx = Some query_object
        \<and> X_WF query_object (parent_frame_id s) = Inr X_WP \<longrightarrow>
      CalcX_WB world_frame_id ToQuaternion s ctx pose_vector =
        ([EvalQueryObjectPort, CallX_WF (parent_frame_id s)],
         Inr \<lparr>pv_translation = translation (rt_mult X_WP (X_PB s)),
              pv_rotation = ToQuaternion (rotation (rt_mult X_WP (X_PB s)))\<rparr>))
   \<and> ((\<forall>R. quaternion_norm_squared (ToQuaternion R) = 1) \<longrightarrow>
        (\<forall>tr out. CalcX_WB world_frame_id ToQuaternion s ctx pose_vector = (tr, Inr out)
           \<longrightarrow> quaternion_norm_squared (pv_rotation out) = 1))"
proof (intro conjI impI allI)
  assume "parent_frame_id s = world_frame_id"
  then show "CalcX_WB world_frame_id ToQuaternion s ctx pose_vector =
        ([], Inr \<lparr>pv_translation = translation (X_PB s),
                  pv_rotation = ToQuaternion (rotation (X_PB s))\<rparr>)"
    by (simp add: CalcX_WB_def ComputeBodyWorldPose_def set_translation_def set_rotation_def)
next
  assume "parent_frame_id s \<noteq> world_frame_id
        \<and> query_object_input ctx = Some query_object
        \<and> X_WF query_object (parent_frame_id s) = Inr X_WP"
  then show "CalcX_WB world_frame_id ToQuaternion s ctx pose_vector =
        ([EvalQueryObjectPort, CallX_WF (parent_frame_id s)],
         Inr \<lparr>pv_translation = translation (rt_mult X_WP (X_PB s)),
              pv_rotation = ToQuaternion (rotation (rt_mult X_WP (X_PB s)))\<rparr>)"
    by (simp add: CalcX_WB_def ComputeBodyWorldPose_def get_query_object_def
        set_translation_def set_rotation_def)
next
  fix tr out
  assume unit: "\<forall>R. quaternion_norm_squared (ToQuaternion R) = 1"
    and res: "CalcX_WB world_frame_id ToQuaternion s ctx pose_vector = (tr, Inr out)"
  obtain tr' r where c: "ComputeBodyWorldPose world_frame_id s ctx = (tr', r)"
    by (cases "ComputeBodyWorldPose world_frame_id s ctx")
  from res c have
    "out = set_rotation (set_translation pose_vector (translation (projr r)))
             (ToQuaternion (rotation (projr r)))"
    by (cases r) (auto simp: CalcX_WB_def)
  then have "pv_rotation out = ToQuaternion (rotation (projr r))"
    by (simp add: set_translation_def set_rotation_def)
  with unit show "quaternion_norm_squared (pv_rotation out) = 1"
    by (simp del: split_paired_All)
qed

theorem CalcX_WB_world_pose_witness:
  "CalcX_WB 0 (\<lambda>R. (1, 0, 0, 0)) (example_sensor 0) \<lparr>query_object_input = None\<rparr>
     \<lparr>pv_translation = (0, 0, 0), pv_rotation = (1, 0, 0, 0)\<rparr>
     = ([], Inr \<lparr>pv_translation = (0, 1, 0), pv_rotation = (1, 0, 0, 0)\<rparr>)
   \<and> CalcX_WB 0 (\<lambda>R. (1, 0, 0, 0)) (example_sensor 1)
       \<lparr>query_object_input = Some (stub_query_object (translation_transform (1, 0, 0)) (Fin 5))\<rparr>
       \<lparr>pv_translation = (0, 0, 0), pv_rotation = (1, 0, 0, 0)\<rparr>
     = ([EvalQueryObjectPort, CallX_WF 1],
        Inr \<lparr>pv_translation = (1, 1, 0), pv_rotation = (1, 0, 0, 0)\<rparr>)
   \<and> quaternion_norm_squared (1, 0, 0, 0) = 1"
proof -
  let ?q = "stub_query_object (translation_transform (1, 0, 0)) (Fin 5)"
  let ?pv = "\<lparr>pv_translation = (0, 0, 0), pv_rotation = (1, 0, 0, 0)\<rparr>"
  have a: "parent_frame_id (example_sensor 0) = 0"
    and b: "parent_frame_id (example_sensor 1) \<noteq> 0
        \<and> query_object_input \<lparr>query_object_input = Some ?q\<rparr> = Some ?q
        \<and> X_WF ?q (parent_frame_id (example_sensor 1)) = Inr (translation_transform (1, 0, 0))"
    by (simp_all add: example_sensor_fields stub_query_object_def)
  from a CalcX_WB_world_pose
    [where s = "example_sensor 0" and world_frame_id = 0 and ToQuaternion = "\<lambda>R. (1, 0, 0, 0)"
       and ctx = "\<lparr>query_object_input = None\<rparr>" and pose_vector = ?pv]
  have 1: "CalcX_WB 0 (\<lambda>R. (1, 0, 0, 0)) (example_sensor 0) \<lparr>query_object_input = None\<rparr> ?pv
     = ([], Inr \<lparr>pv_translation = translation (X_PB (example_sensor 0)),
                  pv_rotation = (1, 0, 0, 0)\<rparr>)"
    by blast
  from b CalcX_WB_world_pose
    [where s = "example_sensor 1" and world_frame_id = 0 and ToQuaternion = "\<lambda>R. (1, 0, 0, 0)"
       and ctx = "\<lparr>query_object_input = Some ?q\<rparr>" and pose_vector = ?pv
       and query_object = ?q and X_WP = "translation_transform (1, 0, 0)"]
  have 2: "CalcX_WB 0 (\<lambda>R. (1, 0, 0, 0)) (example_sensor 1) \<lparr>query_object_input = Some ?q\<rparr> ?pv
     = ([EvalQueryObjectPort, CallX_WF (parent_frame_id (example_sensor 1))],
        Inr \<lparr>pv_translation =
               translation (rt_mult (translation_transform (1, 0, 0)) (X_PB (example_sensor 1))),
             pv_rotation = (1, 0, 0, 0)\<rparr>)"
    by blast
  from 1 2 show ?thesis
    by (simp add: example_sensor_fields rt_mult_translations)
      (simp add: translation_transform_def)
qed

text \<open>
  Claim C10. For a sensor whose parent is the world frame and a context whose query input
  is not connected, the world-pose computation succeeds with \<open>X_PB\<close> without evaluating the
  input port, and its result is the same on every context. On that context the four image
  computations fail with the missing-input error, and so does the world-pose computation
  of a sensor whose parent is another frame.
\<close>

theorem CalcX_WB_world_frame_needs_no_query:
  "parent_frame_id s = world_frame_id \<Longrightarrow> query_object_input ctx = None \<Longrightarrow>
     CalcX_WB world_frame_id ToQuaternion s ctx pose_vector =
       ([], Inr \<lparr>pv_translation = translation (X_PB s),
                 pv_rotation = ToQuaternion (rotation (X_PB s))\<rparr>)
     \<and> CalcX_WB world_frame_id ToQuaternion s ctx' pose_vector =
         CalcX_WB world_frame_id ToQuaternion s ctx pose_vector
     \<and> snd (CalcColorImage s ctx color_image) = Inl InputPortNotConnected
     \<and> snd (CalcDepthImage32F s ctx image_32F) = Inl InputPortNotConnected
     \<and> snd (CalcDepthImage16U s ctx image_16U) = Inl InputPortNotConnected
     \<and> snd (CalcLabelImage s ctx label_image) = Inl InputPortNotConnected
     \<and> (parent_frame_id s' \<noteq> world_frame_id \<longrightarrow>
          CalcX_WB world_frame_id ToQuaternion s' ctx pose_vector =
            ([EvalQueryObjectPort], Inl InputPortNotConnected))"
  by (simp add: CalcX_WB_def ComputeBodyWorldPose_def get_query_object_def
      set_translation_def set_rotation_def CalcColorImage_def CalcDepthImage32F_def
      CalcDepthImage16U_def CalcLabelImage_def Let_def)

theorem CalcX_WB_world_frame_needs_no_query_witness:
  "CalcX_WB 0 (\<lambda>R. (1, 0, 0, 0)) (example_sensor 0) \<lparr>query_object_input = None\<rparr>
     \<lparr>pv_translation = (0, 0, 0), pv_rotation = (1, 0, 0, 0)\<rparr>
     = ([], Inr \<lparr>pv_translation = (0, 1, 0), pv_rotation = (1, 0, 0, 0)\<rparr>)
   \<and> snd (CalcColorImage (example_sensor 0) \<lparr>query_object_input = None\<rparr>
            (new_image 640 480 (0, 0, 0, 0))) = Inl InputPortNotConnected
   \<and> snd (CalcDepthImage16U (example_sensor 0) \<lparr>query_object_input = None\<rparr>
            (new_image 640 480 0)) = Inl InputPortNotConnected
   \<and> CalcX_WB 0 (\<lambda>R. (1, 0, 0, 0)) (example_sensor 1) \<lparr>query_object_input = None\<rparr>
       \<lparr>pv_translation = (0, 0, 0), pv_rotation = (1, 0, 0, 0)\<rparr>
     = ([EvalQueryObjectPort], Inl InputPortNotConnected)"
proof -
  let ?pv = "\<lparr>pv_translation = (0, 0, 0), pv_rotation = (1, 0, 0, 0)\<rparr>"
  have a: "parent_frame_id (example_sensor 0) = 0"
    and b: "query_object_input \<lparr>query_object_input = None\<rparr> = None"
    and c: "parent_frame_id (example_sensor 1) \<noteq> 0"
    by (simp_all add: example_sensor_fields)
  from CalcX_WB_world_frame_needs_no_query
    [OF a b, where ToQuaternion = "\<lambda>R. (1, 0, 0, 0)" and pose_vector = ?pv
       and ctx' = "\<lparr>query_object_input = None\<rparr>"
       and color_image = "new_image 640 480 (0, 0, 0, 0)" and image_32F = "new_image 640 480 (Fin 0)"
       and image_16U = "new_image 640 480 0" and label_image = "new_image 640 480 0"
       and s' = "example_sensor 1"] c
  show ?thesis
    by (simp add: example_sensor_fields) (simp add: translation_transform_def)
qed

lemma CalcDepthImage16U_alt:
  "CalcDepthImage16U s ctx d16 =
     (case CalcDepthImage32F s ctx (new_image (img_width d16) (img_height d16) (Fin 0)) of
        (tr, Inl e) \<Rightarrow> (tr, Inl e)
      | (tr, Inr d32) \<Rightarrow> (tr, ConvertDepth32FTo16U d32 d16))"
  by (simp add: CalcDepthImage16U_def Let_def)

text \<open>
  Claim C4. For every sensor that the constructor builds and every context, evaluating
  the 16-bit depth output gives what the depth quantizer gives on the 32-bit depth output
  of the same context (the same calls, the same error if the render fails).
\<close>

theorem depth_image_16U_is_quantized_32F:
  "Eval_depth_image_16U (fst (RgbdSensor_ctor p X cc dc)) ctx =
     spec_depth_image_16U (fst (RgbdSensor_ctor p X cc dc)) ctx"
  unfolding Eval_depth_image_16U_def spec_depth_image_16U_def Eval_depth_image_32F_def
    CalcDepthImage16U_alt RgbdSensor_ctor_fields
  by (simp add: new_image_def)

lemma example_depth_render:
  "Eval_depth_image_32F (example_sensor 0)
     \<lparr>query_object_input = Some (stub_query_object (translation_transform (1, 0, 0)) (Fin 5))\<rparr>
   = ([EvalQueryObjectPort,
       CallRenderDepthImage
         \<lparr>props_width = 640, props_height = 480, props_fov_y = 4 / 5,
          props_renderer_name = ''renderer'', z_near = Fin (1 / 10), z_far = Fin 5\<rparr>
         0 (translation_transform (0, 1, 1))],
      Inr \<lparr>img_width = 640, img_height = 480, pixels = (\<lambda>_. Fin 5)\<rparr>)"
  by (simp add: Eval_depth_image_32F_def CalcDepthImage32F_def get_query_object_def Let_def
      example_sensor_fields example_sensor_def [of 0, simplified] RgbdSensor_ctor_fields
      example_depth_camera_def example_core_def example_intrinsics_def stub_query_object_def
      rt_mult_translations new_image_def)

theorem depth_image_16U_is_quantized_32F_witness:
  "\<exists>out. Eval_depth_image_16U
            (fst (RgbdSensor_ctor 0 (translation_transform (0, 1, 0)) example_color_camera
                    (example_depth_camera (Fin 5))))
            \<lparr>query_object_input = Some (stub_query_object (translation_transform (1, 0, 0)) (Fin 5))\<rparr>
     = ([EvalQueryObjectPort,
         CallRenderDepthImage
           \<lparr>props_width = 640, props_height = 480, props_fov_y = 4 / 5,
            props_renderer_name = ''renderer'', z_near = Fin (1 / 10), z_far = Fin 5\<rparr>
           0 (translation_transform (0, 1, 1))],
        Inr out)
     \<and> img_width out = 640 \<and> img_height out = 480 \<and> pixels out (0, 0) = 5000"
proof -
  let ?ctx = "\<lparr>query_object_input = Some (stub_query_object (translation_transform (1, 0, 0)) (Fin 5))\<rparr>"
  let ?d32 = "\<lparr>img_width = 640, img_height = 480, pixels = (\<lambda>_. Fin 5)\<rparr> :: ImageDepth32F"
  let ?d16 = "new_image 640 480 0 :: ImageDepth16U"
  have conv: "ConvertDepth32FTo16U ?d32 ?d16 =
      Inr (?d16\<lparr>pixels := (\<lambda>p. if in_image ?d32 (fst p) (snd p)
                                 then quantized (pixels ?d32 p) else pixels ?d16 p)\<rparr>)"
    by (rule ConvertDepth32FTo16U_ok) (simp_all add: new_image_def binary32_roundoff)
  have q: "spec_depth_mm 5 = 5000"
    by (simp add: spec_depth_mm_def trunc_toward_zero_def)
  have m: "model_value (depth_image_16U_port (example_sensor 0)) = ?d16"
    by (simp add: example_sensor_def RgbdSensor_ctor_fields example_depth_camera_def
        example_core_def example_intrinsics_def)
  have e: "Eval_depth_image_16U (example_sensor 0) ?ctx = spec_depth_image_16U (example_sensor 0) ?ctx"
    unfolding example_sensor_def by (rule depth_image_16U_is_quantized_32F)
  have s: "spec_depth_image_16U (example_sensor 0) ?ctx =
      ([EvalQueryObjectPort,
         CallRenderDepthImage
           \<lparr>props_width = 640, props_height = 480, props_fov_y = 4 / 5,
            props_renderer_name = ''renderer'', z_near = Fin (1 / 10), z_far = Fin 5\<rparr>
           0 (translation_transform (0, 1, 1))],
       Inr (?d16\<lparr>pixels := (\<lambda>p. if in_image ?d32 (fst p) (snd p)
                                 then quantized (pixels ?d32 p) else pixels ?d16 p)\<rparr>))"
    by (simp add: spec_depth_image_16U_def example_depth_render m conv)
  show ?thesis
    unfolding example_sensor_def [symmetric] e s
    by (simp add: q in_image_def new_image_def)
qed

section \<open>Properties of the discrete sensor\<close>

lemma hold_stage_fails:
  "\<not> fp_less (Fin 0) period_in \<Longrightarrow> hold_stage period_in v src name b = Inl NonPositivePeriod"
  by (simp add: hold_stage_def ZeroOrderHold_ctor_def)

lemma hold_stage_ok:
  "fp_less (Fin 0) period_in \<Longrightarrow>
     hold_stage period_in v src name b =
       Inr (length (exported_outputs b),
            b\<lparr>systems := systems b @ [HoldSystem \<lparr>zoh_period = period_in, zoh_model_value = v\<rparr>],
              connections := connections b @ [(src, HoldInput (length (systems b)))],
              exported_outputs := exported_outputs b @ [(HoldOutput (length (systems b)), name)]\<rparr>)"
  by (simp add: hold_stage_def ZeroOrderHold_ctor_def AddSystem_def Connect_def ExportOutput_def)

text \<open>
  Claim C7. For every period that is not strictly positive (zero, negative or NaN), the
  constructor of the discrete sensor fails.
\<close>

theorem RgbdSensorDiscrete_ctor_rejects_period:
  "\<not> fp_less (Fin 0) period_in \<Longrightarrow>
     RgbdSensorDiscrete_ctor camera_in period_in render_label_image = Inl NonPositivePeriod"
  by (simp add: RgbdSensorDiscrete_ctor_def hold_stage_fails AddSystem_def ExportInput_def Let_def)

theorem RgbdSensorDiscrete_ctor_rejects_period_witness:
  "\<not> fp_less (Fin 0) (Fin 0) \<and> \<not> fp_less (Fin 0) (Fin (- 1)) \<and> \<not> fp_less (Fin 0) NaN
   \<and> RgbdSensorDiscrete_ctor (example_sensor 0) (Fin 0) True = Inl NonPositivePeriod
   \<and> RgbdSensorDiscrete_ctor (example_sensor 0) (Fin (- 1)) False = Inl NonPositivePeriod
   \<and> RgbdSensorDiscrete_ctor (example_sensor 0) NaN True = Inl NonPositivePeriod"
proof -
  have a: "\<not> fp_less (Fin 0) (Fin 0)" and b: "\<not> fp_less (Fin 0) (Fin (- 1))"
    and c: "\<not> fp_less (Fin 0) NaN"
    by simp_all
  from a b c RgbdSensorDiscrete_ctor_rejects_period [OF a, of "example_sensor 0" True]
    RgbdSensorDiscrete_ctor_rejects_period [OF b, of "example_sensor 0" False]
    RgbdSensorDiscrete_ctor_rejects_period [OF c, of "example_sensor 0" True]
  show ?thesis by blast
qed

lemma RgbdSensorDiscrete_ctor_ok:
  assumes "fp_less (Fin 0) period_in"
  shows "RgbdSensorDiscrete_ctor camera_in period_in render_label_image =
     Inr \<lparr>camera = 0,
          period = period_in,
          query_object_port = 0,
          output_port_color_image = 0,
          output_port_depth_image_32F = 1,
          output_port_depth_image_16U = 2,
          output_port_label_image = (if render_label_image then Some 3 else None),
          X_WB_output_port = (if render_label_image then 4 else 3),
          diagram =
            \<lparr>systems =
               [SensorSystem camera_in,
                HoldSystem \<lparr>zoh_period = period_in, zoh_model_value =
                  ColorValue (new_image (width (intrinsics (color_core (color_camera camera_in))))
                    (height (intrinsics (color_core (color_camera camera_in)))) (0, 0, 0, 0))\<rparr>,
                HoldSystem \<lparr>zoh_period = period_in, zoh_model_value =
                  Depth32FValue (new_image (width (intrinsics (depth_core (depth_camera camera_in))))
                    (height (intrinsics (depth_core (depth_camera camera_in)))) (Fin 0))\<rparr>,
                HoldSystem \<lparr>zoh_period = period_in, zoh_model_value =
                  Depth16UValue (new_image (width (intrinsics (depth_core (depth_camera camera_in))))
                    (height (intrinsics (depth_core (depth_camera camera_in)))) 0)\<rparr>]
               @ (if render_label_image
                  then [HoldSystem \<lparr>zoh_period = period_in, zoh_model_value =
                          LabelValue (new_image (width (intrinsics (color_core (color_camera camera_in))))
                            (height (intrinsics (color_core (color_camera camera_in)))) 0)\<rparr>]
                  else []),
             connections =
               [(SensorOutput (port_name (color_image_port camera_in)), HoldInput 1),
                (SensorOutput (port_name (depth_image_32F_port camera_in)), HoldInput 2),
                (SensorOutput (port_name (depth_image_16U_port camera_in)), HoldInput 3)]
               @ (if render_label_image
                  then [(SensorOutput (port_name (label_image_port camera_in)), HoldInput 4)]
                  else []),
             exported_inputs = [(SensorQueryInput, ''geometry_query'')],
             exported_outputs =
               [(HoldOutput 1, ''color_image''),
                (HoldOutput 2, ''depth_image_32f''),
                (HoldOutput 3, ''depth_image_16u'')]
               @ (if render_label_image then [(HoldOutput 4, ''label_image'')] else [])
               @ [(SensorOutput (port_name (X_WB_pose_port camera_in)), ''X_WB'')]\<rparr>\<rparr>"
  using assms
  by (simp add: RgbdSensorDiscrete_ctor_def hold_stage_ok AddSystem_def ExportInput_def
      ExportOutput_def new_builder_def Let_def)

text \<open>
  Claim C8. When the constructor of the discrete sensor succeeds, the label output port
  is set, and an output named \<^verbatim>\<open>label_image\<close> is exported, if and only if the flag is set.
  When it is, that output is the output of a \<^verbatim>\<open>ZeroOrderHold\<close> with the constructor's
  period whose input is connected to the sensor's label image port; the holds behind the
  color and the two depth outputs have the same period.
\<close>

theorem RgbdSensorDiscrete_label_port:
  assumes "RgbdSensorDiscrete_ctor camera_in period_in render_label_image = Inr d"
  shows "(output_port_label_image d \<noteq> None \<longleftrightarrow> render_label_image)
    \<and> ((\<exists>p. (p, ''label_image'') \<in> set (exported_outputs (diagram d))) \<longleftrightarrow> render_label_image)
    \<and> (render_label_image \<longrightarrow>
         exported_hold (diagram d) ''label_image'' =
           [(4, \<lparr>zoh_period = period_in,
                 zoh_model_value =
                   LabelValue (new_image (width (intrinsics (color_core (color_camera camera_in))))
                     (height (intrinsics (color_core (color_camera camera_in)))) 0)\<rparr>)]
         \<and> (SensorOutput (port_name (label_image_port camera_in)), HoldInput 4)
             \<in> set (connections (diagram d)))
    \<and> map (\<lambda>kz. zoh_period (snd kz)) (exported_hold (diagram d) ''color_image'') = [period_in]
    \<and> map (\<lambda>kz. zoh_period (snd kz)) (exported_hold (diagram d) ''depth_image_32f'') = [period_in]
    \<and> map (\<lambda>kz. zoh_period (snd kz)) (exported_hold (diagram d) ''depth_image_16u'') = [period_in]"
proof -
  have pos: "fp_less (Fin 0) period_in"
  proof (rule ccontr)
    assume "\<not> fp_less (Fin 0) period_in"
    then have "RgbdSensorDiscrete_ctor camera_in period_in render_label_image = Inl NonPositivePeriod"
      by (simp add: RgbdSensorDiscrete_ctor_def hold_stage_fails AddSystem_def ExportInput_def
          Let_def)
    with assms show False by simp
  qed
  note d = assms [unfolded RgbdSensorDiscrete_ctor_ok [OF pos], simplified, symmetric]
  show ?thesis
  proof (cases render_label_image)
    case True
    then show ?thesis
      by (simp add: d exported_hold_def)
  next
    case False
    then show ?thesis
      by (simp add: d exported_hold_def)
  qed
qed

theorem RgbdSensorDiscrete_label_port_witness:
  "(\<exists>d. RgbdSensorDiscrete_ctor (example_sensor 0) (Fin (1 / 30)) True = Inr d
        \<and> output_port_label_image d = Some 3
        \<and> map (\<lambda>kz. zoh_period (snd kz)) (exported_hold (diagram d) ''label_image'')
            = [Fin (1 / 30)]
        \<and> map (\<lambda>kz. zoh_period (snd kz)) (exported_hold (diagram d) ''color_image'')
            = [Fin (1 / 30)])
   \<and> (\<exists>d. RgbdSensorDiscrete_ctor (example_sensor 0) (Fin (1 / 30)) False = Inr d
        \<and> output_port_label_image d = None
        \<and> exported_hold (diagram d) ''label_image'' = [])"
proof -
  have pos: "fp_less (Fin 0) (Fin (1 / 30))" by simp
  obtain d1 where d1: "RgbdSensorDiscrete_ctor (example_sensor 0) (Fin (1 / 30)) True = Inr d1"
    using RgbdSensorDiscrete_ctor_ok [OF pos] by blast
  obtain d2 where d2: "RgbdSensorDiscrete_ctor (example_sensor 0) (Fin (1 / 30)) False = Inr d2"
    using RgbdSensorDiscrete_ctor_ok [OF pos] by blast
  have o1: "output_port_label_image d1 = Some 3"
    using d1 unfolding RgbdSensorDiscrete_ctor_ok [OF pos] by auto
  have o2: "output_port_label_image d2 = None \<and> exported_hold (diagram d2) ''label_image'' = []"
    using d2 unfolding RgbdSensorDiscrete_ctor_ok [OF pos] by (auto simp: exported_hold_def)
  from RgbdSensorDiscrete_label_port [OF d1]
  have "exported_hold (diagram d1) ''label_image'' =
           [(4, \<lparr>zoh_period = Fin (1 / 30),
                 zoh_model_value =
                   LabelValue (new_image (width (intrinsics (color_core (color_camera (example_sensor 0)))))
                     (height (intrinsics (color_core (color_camera (example_sensor 0))))) 0)\<rparr>)]"
    and "map (\<lambda>kz. zoh_period (snd kz)) (exported_hold (diagram d1) ''color_image'') = [Fin (1 / 30)]"
    by blast+
  then have l1: "map (\<lambda>kz. zoh_period (snd kz)) (exported_hold (diagram d1) ''label_image'')
            = [Fin (1 / 30)]"
    and c1: "map (\<lambda>kz. zoh_period (snd kz)) (exported_hold (diagram d1) ''color_image'')
            = [Fin (1 / 30)]"
    by simp_all
  show ?thesis
  proof (rule conjI)
    from d1 o1 l1 c1
    show "\<exists>d. RgbdSensorDiscrete_ctor (example_sensor 0) (Fin (1 / 30)) True = Inr d
        \<and> output_port_label_image d = Some 3
        \<and> map (\<lambda>kz. zoh_period (snd kz)) (exported_hold (diagram d) ''label_image'')
            = [Fin (1 / 30)]
        \<and> map (\<lambda>kz. zoh_period (snd kz)) (exported_hold (diagram d) ''color_image'')
            = [Fin (1 / 30)]"
      by (intro exI [of _ d1] conjI)
    from d2 o2
    show "\<exists>d. RgbdSensorDiscrete_ctor (example_sensor 0) (Fin (1 / 30)) False = Inr d
        \<and> output_port_label_image d = None
        \<and> exported_hold (diagram d) ''label_image'' = []"
      by (intro exI [of _ d2] conjI) (elim conjE, assumption)+
  qed
qed


end
